theory Spec2Isabelle
  imports Main
begin

section \<open>Python values, errors and the process environment\<close>

text \<open>
  The module \<^verbatim>\<open>python/pyarrow/ipc.py\<close> is a thin layer over the native
  extension \<^verbatim>\<open>pyarrow.lib\<close>.  Its own logic is the option resolution
  \<^verbatim>\<open>_get_legacy_format_default\<close>, the constructors that call it, the
  module-level aliases, the \<^verbatim>\<open>read_pandas\<close> mixin and the two pandas
  helpers.  Exceptions are values of type \<open>error\<close>; a function that may raise
  returns \<open>error + 'a\<close> with \<open>Inl\<close> for the exception.  \<open>ValueError\<close> and
  \<open>TypeError\<close> are the exceptions the module itself raises; the other four are
  the spec's classes of failure of the native layer and of the converter (malformed
  input, protocol misuse, resource errors, conversion errors).
\<close>

datatype error =
    ValueError string
  | TypeError string
  | DecodeError string
  | UsageError string
  | ResourceError string
  | ConversionError string

text \<open>
  Modelled from the spec: \<^verbatim>\<open>MetadataVersion\<close> and
  \<^verbatim>\<open>IpcWriteOptions\<close> are declared in \<^verbatim>\<open>pyarrow.lib\<close>, which is
  not among the sources.  The spec's data model gives the options value as
  "legacy-framing flag (bool), metadata-schema-version (enum: V4 | V5)".
\<close>

datatype MetadataVersion = V4 | V5

record IpcWriteOptions =
  use_legacy_format :: bool
  metadata_version :: MetadataVersion

text \<open>
  The \<^verbatim>\<open>options\<close> argument is dynamically typed: the source tests it
  with \<^verbatim>\<open>is not None\<close>, with its truth value and with
  \<^verbatim>\<open>isinstance\<close>.  \<open>PyObject cls t\<close> is an instance of any other class
  named \<open>cls\<close> (not a subclass of \<^verbatim>\<open>IpcWriteOptions\<close>) whose truth value
  is \<open>t\<close>.
\<close>

datatype pyobj =
    PyNone
  | PyBool bool
  | PyInt int
  | PyStr string
  | PyIpcWriteOptions IpcWriteOptions
  | PyObject string bool

text \<open>Python's truth value testing (\<^verbatim>\<open>if x:\<close>).  An
  \<^verbatim>\<open>IpcWriteOptions\<close> instance defines neither \<^verbatim>\<open>__bool__\<close> nor
  \<^verbatim>\<open>__len__\<close>, so it is true.\<close>

fun truthy :: "pyobj \<Rightarrow> bool" where
  "truthy PyNone = False"
| "truthy (PyBool b) = b"
| "truthy (PyInt n) = (n \<noteq> 0)"
| "truthy (PyStr s) = (s \<noteq> [])"
| "truthy (PyIpcWriteOptions opts) = True"
| "truthy (PyObject cls t) = t"

text \<open>\<^verbatim>\<open>str(type(x))\<close>, as it is formatted into the \<^verbatim>\<open>TypeError\<close>
  message.\<close>

fun type_name :: "pyobj \<Rightarrow> string" where
  "type_name PyNone = ''NoneType''"
| "type_name (PyBool b) = ''bool''"
| "type_name (PyInt n) = ''int''"
| "type_name (PyStr s) = ''str''"
| "type_name (PyIpcWriteOptions opts) = ''pyarrow.lib.IpcWriteOptions''"
| "type_name (PyObject cls t) = cls"

definition type_str :: "pyobj \<Rightarrow> string" where
  "type_str x = ''<class '' @ [CHR 0x27] @ type_name x @ [CHR 0x27] @ ''>''"

subsection \<open>The builtin \<^verbatim>\<open>int\<close> on strings\<close>

text \<open>
  \<^verbatim>\<open>int(s)\<close> for a string \<open>s\<close> in base 10: surrounding whitespace (tab,
  line feed, vertical tab, form feed, carriage return, space) is stripped, one
  optional sign follows, then decimal digits, where single underscores may stand
  between digits (Python 3.6 and later); anything else raises
  \<^verbatim>\<open>ValueError\<close>.  The model covers ASCII text: a character outside ASCII is
  not a digit and not whitespace here (Python also accepts the decimal digits and
  the whitespace of other scripts), and the length of the literal is not limited.
\<close>

definition is_space :: "char \<Rightarrow> bool" where
  "is_space c = (c \<in> {CHR 0x09, CHR 0x0A, CHR 0x0B, CHR 0x0C, CHR 0x0D, CHR 0x20})"

definition is_digit :: "char \<Rightarrow> bool" where
  "is_digit c = (c \<in> set ''0123456789'')"

definition digit_val :: "char \<Rightarrow> int" where
  "digit_val c = int (of_char c) - 48"

definition strip :: "string \<Rightarrow> string" where
  "strip s = rev (dropWhile is_space (rev (dropWhile is_space s)))"

text \<open>The digits after the first one, with the value read so far.\<close>

fun more_digits :: "int \<Rightarrow> string \<Rightarrow> int option" where
  "more_digits acc [] = Some acc"
| "more_digits acc [c] = (if is_digit c then Some (acc * 10 + digit_val c) else None)"
| "more_digits acc (c # d # cs) =
     (if is_digit c then more_digits (acc * 10 + digit_val c) (d # cs)
      else if c = CHR ''_'' \<and> is_digit d then more_digits (acc * 10 + digit_val d) cs
      else None)"

definition decimal :: "string \<Rightarrow> int option" where
  "decimal s = (case s of [] \<Rightarrow> None
                | c # cs \<Rightarrow> if is_digit c then more_digits (digit_val c) cs else None)"

text \<open>
  \<^verbatim>\<open>repr(s)\<close> of an ASCII string, as the message of the
  \<^verbatim>\<open>ValueError\<close> shows it: in single quotes, or in double quotes if the
  string has a single quote and no double quote; the quote and the backslash are
  escaped with a backslash, tab, line feed and carriage return are written
  \<^verbatim>\<open>\t\<close>, \<^verbatim>\<open>\n\<close>, \<^verbatim>\<open>\r\<close>, and any other character that is not
  printable ASCII as \<^verbatim>\<open>\x\<close> and two hexadecimal digits.
\<close>

definition hex_digit :: "nat \<Rightarrow> char" where
  "hex_digit n = ''0123456789abcdef'' ! (n mod 16)"

definition repr_char :: "char \<Rightarrow> char \<Rightarrow> string" where
  "repr_char q c =
     (if c = q \<or> c = CHR 0x5C then [CHR 0x5C, c]
      else if c = CHR 0x09 then [CHR 0x5C, CHR ''t'']
      else if c = CHR 0x0A then [CHR 0x5C, CHR ''n'']
      else if c = CHR 0x0D then [CHR 0x5C, CHR ''r'']
      else if (of_char c :: nat) < 32 \<or> 127 \<le> (of_char c :: nat) then
        [CHR 0x5C, CHR ''x'', hex_digit (of_char c div 16), hex_digit (of_char c)]
      else [c])"

definition py_repr :: "string \<Rightarrow> string" where
  "py_repr s =
     (let q = (if CHR 0x27 \<in> set s \<and> CHR 0x22 \<notin> set s then CHR 0x22 else CHR 0x27)
      in q # concat (map (repr_char q) s) @ [q])"

text \<open>The exception of \<^verbatim>\<open>int(s)\<close>; the message holds at most 200 characters of
  \<^verbatim>\<open>repr(s)\<close>.\<close>

definition invalid_literal :: "string \<Rightarrow> error" where
  "invalid_literal s =
     ValueError (''invalid literal for int() with base 10: '' @ take 200 (py_repr s))"

definition py_int :: "string \<Rightarrow> error + int" where
  "py_int s =
     (let t = strip s;
          (sign, body) = (case t of
                            [] \<Rightarrow> (1, t)
                          | c # cs \<Rightarrow> if c = CHR ''-'' then (- 1, cs)
                                     else if c = CHR ''+'' then (1, cs)
                                     else (1, t))
      in case decimal body of
           None \<Rightarrow> Inl (invalid_literal s)
         | Some n \<Rightarrow> Inr (sign * n))"

subsection \<open>The environment\<close>

text \<open>\<^verbatim>\<open>os.environ\<close> is a mapping from names to strings, read when a writer
  is constructed; \<^verbatim>\<open>os.environ.get(k, d)\<close> is \<open>environ_get\<close>.\<close>

type_synonym environ = "string \<rightharpoonup> string"

definition environ_get :: "environ \<Rightarrow> string \<Rightarrow> string \<Rightarrow> string" where
  "environ_get env k d = (case env k of None \<Rightarrow> d | Some v \<Rightarrow> v)"

text \<open>\<^verbatim>\<open>bool(int(os.environ.get(k, '0')))\<close>, the expression both overrides
  are read with.\<close>

definition env_flag :: "environ \<Rightarrow> string \<Rightarrow> error + bool" where
  "env_flag env k =
     (case py_int (environ_get env k ''0'') of
        Inl e \<Rightarrow> Inl e
      | Inr n \<Rightarrow> Inr (n \<noteq> 0))"

section \<open>Option resolution\<close>

text \<open>
  \<^verbatim>\<open>_get_legacy_format_default(use_legacy_format, options)\<close> (an Isabelle
  name cannot start with an underscore).  \<open>legacy\<close> is the
  \<^verbatim>\<open>use_legacy_format\<close> argument, documented as
  \<^verbatim>\<open>bool, default None\<close>.  The branches are in the order of the source: the
  mutual-exclusion test on \<^verbatim>\<open>is not None\<close>, then the test of the truth value
  of \<^verbatim>\<open>options\<close> with the \<^verbatim>\<open>isinstance\<close> check inside it (the
  pattern \<open>PyIpcWriteOptions opts\<close>), then the defaults, where the first variable
  is read only if \<open>legacy\<close> is \<open>None\<close> and the second is always read.
\<close>

definition at_most_one :: error where
  "at_most_one = ValueError ''Can provide at most one of options and use_legacy_format''"

definition expected_IpcWriteOptions :: "pyobj \<Rightarrow> error" where
  "expected_IpcWriteOptions x = TypeError (''expected IpcWriteOptions, got '' @ type_str x)"

definition get_legacy_format_default ::
  "environ \<Rightarrow> bool option \<Rightarrow> pyobj \<Rightarrow> error + IpcWriteOptions" where
  "get_legacy_format_default env legacy options =
     (if legacy \<noteq> None \<and> options \<noteq> PyNone then
        Inl at_most_one
      else if truthy options then
        (case options of
           PyIpcWriteOptions opts \<Rightarrow> Inr opts
         | _ \<Rightarrow> Inl (expected_IpcWriteOptions options))
      else
        (case (case legacy of
                 None \<Rightarrow> env_flag env ''ARROW_PRE_0_15_IPC_FORMAT''
               | Some b \<Rightarrow> Inr b) of
           Inl e \<Rightarrow> Inl e
         | Inr legacy_flag \<Rightarrow>
             (case env_flag env ''ARROW_PRE_1_0_METADATA_VERSION'' of
                Inl e \<Rightarrow> Inl e
              | Inr pre_1_0 \<Rightarrow>
                  Inr \<lparr>use_legacy_format = legacy_flag,
                       metadata_version = (if pre_1_0 then V4 else V5)\<rparr>)))"

section \<open>Writers, readers and the module-level constructors\<close>

text \<open>
  The four classes derive from extension classes of \<^verbatim>\<open>pyarrow.lib\<close>; their
  \<^verbatim>\<open>__init__\<close> methods are in the source and call the inherited
  \<^verbatim>\<open>_open\<close>.  The inherited method is a parameter of the model
  (\<open>lib_open\<close>): it takes the state of the outside world (sinks, sources, files) and
  returns the opened object or an exception together with the new state.  A
  constructor that raises before \<^verbatim>\<open>_open\<close> leaves the world as it was.
\<close>

definition RecordBatchStreamReader ::
  "('source \<Rightarrow> 'w \<Rightarrow> (error + 'reader) \<times> 'w) \<Rightarrow> 'source \<Rightarrow> 'w \<Rightarrow> (error + 'reader) \<times> 'w" where
  "RecordBatchStreamReader lib_open source w = lib_open source w"

definition RecordBatchStreamWriter ::
  "('sink \<Rightarrow> 'schema \<Rightarrow> IpcWriteOptions \<Rightarrow> 'w \<Rightarrow> (error + 'writer) \<times> 'w) \<Rightarrow> environ \<Rightarrow>
   'sink \<Rightarrow> 'schema \<Rightarrow> bool option \<Rightarrow> pyobj \<Rightarrow> 'w \<Rightarrow> (error + 'writer) \<times> 'w" where
  "RecordBatchStreamWriter lib_open env sink schema legacy options w =
     (case get_legacy_format_default env legacy options of
        Inl e \<Rightarrow> (Inl e, w)
      | Inr opts \<Rightarrow> lib_open sink schema opts w)"

definition RecordBatchFileReader ::
  "('source \<Rightarrow> 'offset option \<Rightarrow> 'w \<Rightarrow> (error + 'reader) \<times> 'w) \<Rightarrow>
   'source \<Rightarrow> 'offset option \<Rightarrow> 'w \<Rightarrow> (error + 'reader) \<times> 'w" where
  "RecordBatchFileReader lib_open source footer_offset w = lib_open source footer_offset w"

definition RecordBatchFileWriter ::
  "('sink \<Rightarrow> 'schema \<Rightarrow> IpcWriteOptions \<Rightarrow> 'w \<Rightarrow> (error + 'writer) \<times> 'w) \<Rightarrow> environ \<Rightarrow>
   'sink \<Rightarrow> 'schema \<Rightarrow> bool option \<Rightarrow> pyobj \<Rightarrow> 'w \<Rightarrow> (error + 'writer) \<times> 'w" where
  "RecordBatchFileWriter lib_open env sink schema legacy options w =
     (case get_legacy_format_default env legacy options of
        Inl e \<Rightarrow> (Inl e, w)
      | Inr opts \<Rightarrow> lib_open sink schema opts w)"

definition new_stream ::
  "('sink \<Rightarrow> 'schema \<Rightarrow> IpcWriteOptions \<Rightarrow> 'w \<Rightarrow> (error + 'writer) \<times> 'w) \<Rightarrow> environ \<Rightarrow>
   'sink \<Rightarrow> 'schema \<Rightarrow> bool option \<Rightarrow> pyobj \<Rightarrow> 'w \<Rightarrow> (error + 'writer) \<times> 'w" where
  "new_stream lib_open env sink schema legacy options w =
     RecordBatchStreamWriter lib_open env sink schema legacy options w"

definition open_stream ::
  "('source \<Rightarrow> 'w \<Rightarrow> (error + 'reader) \<times> 'w) \<Rightarrow> 'source \<Rightarrow> 'w \<Rightarrow> (error + 'reader) \<times> 'w" where
  "open_stream lib_open source w = RecordBatchStreamReader lib_open source w"

definition new_file ::
  "('sink \<Rightarrow> 'schema \<Rightarrow> IpcWriteOptions \<Rightarrow> 'w \<Rightarrow> (error + 'writer) \<times> 'w) \<Rightarrow> environ \<Rightarrow>
   'sink \<Rightarrow> 'schema \<Rightarrow> bool option \<Rightarrow> pyobj \<Rightarrow> 'w \<Rightarrow> (error + 'writer) \<times> 'w" where
  "new_file lib_open env sink schema legacy options w =
     RecordBatchFileWriter lib_open env sink schema legacy options w"

definition open_file ::
  "('source \<Rightarrow> 'offset option \<Rightarrow> 'w \<Rightarrow> (error + 'reader) \<times> 'w) \<Rightarrow>
   'source \<Rightarrow> 'offset option \<Rightarrow> 'w \<Rightarrow> (error + 'reader) \<times> 'w" where
  "open_file lib_open source footer_offset w = RecordBatchFileReader lib_open source footer_offset w"

section \<open>The native stream protocol\<close>

text \<open>
  Modelled from the spec: the data model (schema, record batch, table, message
  envelope, end-of-stream marker) and the stream protocol's writer and reader are
  implemented in \<^verbatim>\<open>pyarrow.lib\<close>, which is not among the sources.  The
  definitions of this section follow the spec's sections 3 and 4.3.  The byte layout
  of a frame and of the column buffers is out of the spec's scope, so a buffer is
  the sequence of its frames.
\<close>

text \<open>Modelled from the spec: a field descriptor is a name, a logical type, nullability
  and nested children; a schema is an ordered sequence of them, compared
  structurally.  Cells stand for the values of the column buffers.\<close>

datatype field = Field string string bool "field list"

type_synonym schema = "field list"

datatype cell = Null | Int64 int | Utf8 string

text \<open>Modelled from the spec: a column either inlines its values or is dictionary
  encoded (section 3, DictionaryBatch message and glossary): a dictionary of
  values and one index into it per row.\<close>

datatype column = Plain "cell list" | DictEncoded "cell list" "nat list"

record record_batch =
  rb_schema :: schema
  rb_num_rows :: nat
  rb_columns :: "column list"

text \<open>Modelled from the spec: the combined tabular result of \<^verbatim>\<open>read_all\<close> (section
  4.3).  A table keeps the batches it was built from, in order, as its chunks.\<close>

record table =
  t_schema :: schema
  t_batches :: "record_batch list"

text \<open>Modelled from the spec: the message envelope with its framing epoch, metadata
  version and kind, and the end-of-stream marker (sections 3, 4.1 and 4.2).  A
  RecordBatch message names the dictionary of a dictionary-encoded column by its id
  instead of inlining the values.\<close>

datatype framing = Legacy | Current

datatype wire_column = WPlain "cell list" | WDictRef nat "nat list"

datatype payload =
    SchemaMsg schema
  | DictionaryBatchMsg nat "cell list" bool
  | RecordBatchMsg nat "wire_column list"

datatype frame = Message framing MetadataVersion payload | EndOfStream framing

type_synonym buffer = "frame list"

definition framing_of :: "IpcWriteOptions \<Rightarrow> framing" where
  "framing_of opts = (if use_legacy_format opts then Legacy else Current)"

definition envelope :: "IpcWriteOptions \<Rightarrow> payload \<Rightarrow> frame" where
  "envelope opts p = Message (framing_of opts) (metadata_version opts) p"

subsection \<open>The world: in-memory sinks and the calls made into the native layer\<close>

text \<open>
  Modelled from the spec: the byte-sink abstraction is an external collaborator.  A
  \<^verbatim>\<open>BufferOutputStream\<close> is a mutable object that the writer and its creator
  share, so the sinks live in a store and are named by their index in it.
  \<open>lib_calls\<close> records, in order, every call the module makes into
  \<^verbatim>\<open>pyarrow.lib\<close> and the converter.
\<close>

datatype call =
    Call_from_pandas pyobj pyobj
  | Call_BufferOutputStream nat
  | Call_StreamWriter_open nat schema IpcWriteOptions
  | Call_write_batch nat record_batch
  | Call_writer_close nat
  | Call_getvalue nat
  | Call_BufferReader buffer
  | Call_StreamReader_open
  | Call_read_all
  | Call_reader_exit
  | Call_to_pandas "(string \<times> pyobj) list"

record world =
  sinks :: "buffer list"
  lib_calls :: "call list"

definition record_call :: "call \<Rightarrow> world \<Rightarrow> world" where
  "record_call c w = w\<lparr>lib_calls := lib_calls w @ [c]\<rparr>"

definition sink_write :: "nat \<Rightarrow> frame list \<Rightarrow> world \<Rightarrow> (error + unit) \<times> world" where
  "sink_write r fs w =
     (if r < length (sinks w) then (Inr (), w\<lparr>sinks := (sinks w)[r := sinks w ! r @ fs]\<rparr>)
      else (Inl (ResourceError ''no such sink''), w))"

definition BufferOutputStream :: "world \<Rightarrow> nat \<times> world" where
  "BufferOutputStream w =
     (length (sinks w),
      record_call (Call_BufferOutputStream (length (sinks w))) (w\<lparr>sinks := sinks w @ [[]]\<rparr>))"

definition getvalue :: "nat \<Rightarrow> world \<Rightarrow> (error + buffer) \<times> world" where
  "getvalue r w =
     (if r < length (sinks w) then (Inr (sinks w ! r), record_call (Call_getvalue r) w)
      else (Inl (ResourceError ''no such sink''), record_call (Call_getvalue r) w))"

definition BufferReader :: "buffer \<Rightarrow> world \<Rightarrow> buffer \<times> world" where
  "BufferReader buf w = (buf, record_call (Call_BufferReader buf) w)"

subsection \<open>The stream writer\<close>

datatype writer_phase = Unopened | HeaderWritten | Writing | Closed

record stream_writer =
  sw_phase :: writer_phase
  sw_sink :: nat
  sw_schema :: schema
  sw_options :: IpcWriteOptions
  sw_dicts :: "(nat \<times> cell list) list"

text \<open>Modelled from the spec: the writer's states (section 4.3) and what it owns: the
  sink, the schema, the options fixed at construction and the dictionaries written
  so far.  \<open>HeaderWritten\<close> is the state inside \<^verbatim>\<open>open\<close>, after the Schema
  message and before the transition to \<open>Writing\<close>.  \<open>unopened_writer\<close> is
  the object as allocated, before \<^verbatim>\<open>__init__\<close> runs.\<close>

definition unopened_writer :: stream_writer where
  "unopened_writer =
     \<lparr>sw_phase = Unopened, sw_sink = 0, sw_schema = [],
      sw_options = \<lparr>use_legacy_format = False, metadata_version = V5\<rparr>, sw_dicts = []\<rparr>"

text \<open>Modelled from the spec: \<^verbatim>\<open>open(sink, schema, options)\<close> writes the Schema
  message first and
  transitions to Writing; fails if called twice.\<close>

definition stream_writer_open ::
  "stream_writer \<Rightarrow> nat \<Rightarrow> schema \<Rightarrow> IpcWriteOptions \<Rightarrow> world \<Rightarrow> (error + stream_writer) \<times> world" where
  "stream_writer_open self sink schema opts w =
     (let w1 = record_call (Call_StreamWriter_open sink schema opts) w in
      if sw_phase self \<noteq> Unopened then (Inl (UsageError ''writer is already open''), w1)
      else
        (case sink_write sink [envelope opts (SchemaMsg schema)] w1 of
           (Inl e, w2) \<Rightarrow> (Inl e, w2)
         | (Inr u, w2) \<Rightarrow>
             (Inr \<lparr>sw_phase = Writing, sw_sink = sink, sw_schema = schema,
                   sw_options = opts, sw_dicts = []\<rparr>, w2)))"

text \<open>Modelled from the spec: what \<^verbatim>\<open>RecordBatchStreamWriter.__init__\<close> calls as
  \<^verbatim>\<open>self._open\<close>: the inherited method on the freshly allocated object.\<close>

definition StreamWriter_open ::
  "nat \<Rightarrow> schema \<Rightarrow> IpcWriteOptions \<Rightarrow> world \<Rightarrow> (error + stream_writer) \<times> world" where
  "StreamWriter_open sink schema opts w = stream_writer_open unopened_writer sink schema opts w"

text \<open>
  Modelled from the spec: the DictionaryBatch messages of a batch, in first-use order
  (section 4.3).  The dictionary of the column at position \<open>i\<close> has the id \<open>i\<close>.  A dictionary
  that the stream has not seen is written whole; one that extends what the stream
  has for its id is written as a delta; any other change replaces it; an unchanged
  one is not written again.
\<close>

definition dictionary_update :: "cell list option \<Rightarrow> nat \<Rightarrow> cell list \<Rightarrow> payload option" where
  "dictionary_update old i d =
     (case old of
        None \<Rightarrow> Some (DictionaryBatchMsg i d False)
      | Some d0 \<Rightarrow>
          if d = d0 then None
          else if length d0 < length d \<and> take (length d0) d = d0
            then Some (DictionaryBatchMsg i (drop (length d0) d) True)
          else Some (DictionaryBatchMsg i d False))"

fun dictionary_messages ::
  "(nat \<times> cell list) list \<Rightarrow> nat \<Rightarrow> column list \<Rightarrow> payload list \<times> (nat \<times> cell list) list" where
  "dictionary_messages known i [] = ([], known)"
| "dictionary_messages known i (Plain vs # cols) = dictionary_messages known (Suc i) cols"
| "dictionary_messages known i (DictEncoded d idx # cols) =
     (case dictionary_update (map_of known i) i d of
        None \<Rightarrow> dictionary_messages known (Suc i) cols
      | Some m \<Rightarrow>
          (case dictionary_messages ((i, d) # known) (Suc i) cols of
             (ms, known') \<Rightarrow> (m # ms, known')))"

fun wire_columns :: "nat \<Rightarrow> column list \<Rightarrow> wire_column list" where
  "wire_columns i [] = []"
| "wire_columns i (Plain vs # cols) = WPlain vs # wire_columns (Suc i) cols"
| "wire_columns i (DictEncoded d idx # cols) = WDictRef i idx # wire_columns (Suc i) cols"

text \<open>Modelled from the spec: \<^verbatim>\<open>write_batch(batch)\<close>.  The batch's schema must
  match the stream's; the
  dictionary messages go immediately before the RecordBatch message; fails after
  close and on a schema mismatch.\<close>

definition write_batch ::
  "stream_writer \<Rightarrow> record_batch \<Rightarrow> world \<Rightarrow> (error + stream_writer) \<times> world" where
  "write_batch self batch w =
     (let w1 = record_call (Call_write_batch (sw_sink self) batch) w in
      if sw_phase self \<noteq> Writing then (Inl (UsageError ''writer is not open''), w1)
      else if rb_schema batch \<noteq> sw_schema self then
        (Inl (UsageError ''batch does not match the schema of the stream''), w1)
      else
        (case dictionary_messages (sw_dicts self) 0 (rb_columns batch) of
           (ms, known) \<Rightarrow>
             (case sink_write (sw_sink self)
                     (map (envelope (sw_options self))
                        (ms @ [RecordBatchMsg (rb_num_rows batch)
                                 (wire_columns 0 (rb_columns batch))])) w1 of
                (Inl e, w2) \<Rightarrow> (Inl e, w2)
              | (Inr u, w2) \<Rightarrow> (Inr (self\<lparr>sw_dicts := known\<rparr>), w2))))"

text \<open>Modelled from the spec: \<^verbatim>\<open>close()\<close> writes the end-of-stream marker; a
  second close is a
  no-op.\<close>

definition stream_writer_close :: "stream_writer \<Rightarrow> world \<Rightarrow> (error + stream_writer) \<times> world" where
  "stream_writer_close self w =
     (let w1 = record_call (Call_writer_close (sw_sink self)) w in
      if sw_phase self = Closed then (Inr self, w1)
      else if sw_phase self \<noteq> Writing then (Inl (UsageError ''writer is not open''), w1)
      else
        (case sink_write (sw_sink self) [EndOfStream (framing_of (sw_options self))] w1 of
           (Inl e, w2) \<Rightarrow> (Inl e, w2)
         | (Inr u, w2) \<Rightarrow> (Inr (self\<lparr>sw_phase := Closed\<rparr>), w2)))"

text \<open>Modelled from the spec: the writer as a context manager (section 9, scoped
  handles).  \<^verbatim>\<open>__enter__\<close> returns the writer,
  \<^verbatim>\<open>__exit__\<close> closes it (release on every exit path).\<close>

definition stream_writer_exit :: "stream_writer \<Rightarrow> world \<Rightarrow> (error + stream_writer) \<times> world" where
  "stream_writer_exit self w = stream_writer_close self w"

subsection \<open>The stream reader\<close>

text \<open>Modelled from the spec: the reader's states (section 4.3) and what it holds: the
  schema, the dictionaries applied so far and the frames not yet read.\<close>

datatype reader_phase = NotOpened | SchemaRead | Reading | Exhausted

record stream_reader =
  sr_phase :: reader_phase
  sr_schema :: schema
  sr_dicts :: "(nat \<times> cell list) list"
  sr_rest :: buffer

definition unopened_reader :: stream_reader where
  "unopened_reader = \<lparr>sr_phase = NotOpened, sr_schema = [], sr_dicts = [], sr_rest = []\<rparr>"

text \<open>Modelled from the spec: \<^verbatim>\<open>open(source)\<close> reads exactly one Schema message;
  an error if the
  first message is not a Schema message or the source is empty.\<close>

definition stream_reader_open ::
  "stream_reader \<Rightarrow> buffer \<Rightarrow> world \<Rightarrow> (error + stream_reader) \<times> world" where
  "stream_reader_open self source w =
     (let w1 = record_call Call_StreamReader_open w in
      if sr_phase self \<noteq> NotOpened then (Inl (UsageError ''reader is already open''), w1)
      else
        (case source of
           [] \<Rightarrow> (Inl (DecodeError ''the source is empty''), w1)
         | Message f v (SchemaMsg s) # rest \<Rightarrow>
             (Inr \<lparr>sr_phase = SchemaRead, sr_schema = s, sr_dicts = [], sr_rest = rest\<rparr>, w1)
         | _ \<Rightarrow> (Inl (DecodeError ''the first message is not a schema''), w1)))"

definition StreamReader_open :: "buffer \<Rightarrow> world \<Rightarrow> (error + stream_reader) \<times> world" where
  "StreamReader_open source w = stream_reader_open unopened_reader source w"

text \<open>Modelled from the spec: a DictionaryBatch message replaces the dictionary of its
  id, or, as a delta,
  extends it.\<close>

definition apply_dictionary ::
  "(nat \<times> cell list) list \<Rightarrow> nat \<Rightarrow> cell list \<Rightarrow> bool \<Rightarrow> error + (nat \<times> cell list) list" where
  "apply_dictionary known i d is_delta =
     (if is_delta then
        (case map_of known i of
           None \<Rightarrow> Inl (DecodeError ''delta for an undefined dictionary'')
         | Some d0 \<Rightarrow> Inr ((i, d0 @ d) # known))
      else Inr ((i, d) # known))"

fun decode_columns :: "(nat \<times> cell list) list \<Rightarrow> wire_column list \<Rightarrow> column list option" where
  "decode_columns known [] = Some []"
| "decode_columns known (WPlain vs # wcols) =
     (case decode_columns known wcols of None \<Rightarrow> None | Some cols \<Rightarrow> Some (Plain vs # cols))"
| "decode_columns known (WDictRef i idx # wcols) =
     (case map_of known i of
        None \<Rightarrow> None
      | Some d \<Rightarrow>
          (case decode_columns known wcols of
             None \<Rightarrow> None
           | Some cols \<Rightarrow> Some (DictEncoded d idx # cols)))"

text \<open>
  Modelled from the spec: \<^verbatim>\<open>read_next_batch()\<close> over the frames that are left: a
  DictionaryBatch is applied and reading continues; a RecordBatch is decoded against
  the schema and the dictionaries and returned; the end-of-stream marker signals
  that no data is left.  A second Schema message, a reference to an undefined
  dictionary, and a source that ends without the marker are malformed input.
\<close>

fun next_batch ::
  "schema \<Rightarrow> (nat \<times> cell list) list \<Rightarrow> buffer \<Rightarrow>
   error + (record_batch option \<times> (nat \<times> cell list) list \<times> buffer)" where
  "next_batch s known [] = Inl (DecodeError ''the stream is truncated'')"
| "next_batch s known (EndOfStream f # rest) = Inr (None, known, rest)"
| "next_batch s known (Message f v (SchemaMsg s') # rest) =
     Inl (DecodeError ''unexpected schema message'')"
| "next_batch s known (Message f v (DictionaryBatchMsg i d is_delta) # rest) =
     (case apply_dictionary known i d is_delta of
        Inl e \<Rightarrow> Inl e
      | Inr known' \<Rightarrow> next_batch s known' rest)"
| "next_batch s known (Message f v (RecordBatchMsg n wcols) # rest) =
     (case decode_columns known wcols of
        None \<Rightarrow> Inl (DecodeError ''reference to an undefined dictionary'')
      | Some cols \<Rightarrow>
          Inr (Some \<lparr>rb_schema = s, rb_num_rows = n, rb_columns = cols\<rparr>, known, rest))"

definition read_next_batch :: "stream_reader \<Rightarrow> error + (record_batch option \<times> stream_reader)" where
  "read_next_batch self =
     (if sr_phase self = NotOpened then Inl (UsageError ''reader is not open'')
      else if sr_phase self = Exhausted then Inr (None, self)
      else
        (case next_batch (sr_schema self) (sr_dicts self) (sr_rest self) of
           Inl e \<Rightarrow> Inl e
         | Inr (None, known, rest) \<Rightarrow>
             Inr (None, self\<lparr>sr_phase := Exhausted, sr_dicts := known, sr_rest := rest\<rparr>)
         | Inr (Some b, known, rest) \<Rightarrow>
             Inr (Some b, self\<lparr>sr_phase := Reading, sr_dicts := known, sr_rest := rest\<rparr>)))"

text \<open>Modelled from the spec: \<^verbatim>\<open>read_all()\<close> drains the remaining batches in
  arrival order.  Every
  batch that \<open>read_next_batch\<close> returns consumes at least one frame, so the loop
  ends.\<close>

function drain ::
  "stream_reader \<Rightarrow> record_batch list \<Rightarrow> error + (record_batch list \<times> stream_reader)" where
  "drain self acc =
     (case read_next_batch self of
        Inl e \<Rightarrow> Inl e
      | Inr (None, self') \<Rightarrow> Inr (acc, self')
      | Inr (Some b, self') \<Rightarrow> drain self' (acc @ [b]))"
  by pat_completeness auto
termination
proof (relation "measure (\<lambda>(self, acc). length (sr_rest self))", goal_cases)
  case 1
  show ?case
    by simp
next
  have shorter: "length rest' < length fs"
    if "next_batch s known fs = Inr (r, known', rest')" for s known fs r known' rest'
    using that
    by (induction s known fs rule: next_batch.induct)
      (auto split: sum.splits option.splits)
  case 2
  then show ?case
    by (auto simp: read_next_batch_def split: if_splits sum.splits option.splits prod.splits
        dest: shorter)
qed

definition read_all :: "stream_reader \<Rightarrow> world \<Rightarrow> (error + (table \<times> stream_reader)) \<times> world" where
  "read_all self w =
     (let w1 = record_call Call_read_all w in
      case drain self [] of
        Inl e \<Rightarrow> (Inl e, w1)
      | Inr (batches, self') \<Rightarrow>
          (Inr (\<lparr>t_schema = sr_schema self, t_batches = batches\<rparr>, self'), w1))"

text \<open>Modelled from the spec: the reader as a context manager (section 9, scoped
  handles): leaving the block releases the source.\<close>

definition stream_reader_exit :: "stream_reader \<Rightarrow> world \<Rightarrow> unit \<times> world" where
  "stream_reader_exit self w = ((), record_call Call_reader_exit w)"

subsection \<open>The external converter\<close>

text \<open>
  Modelled from the spec: the conversion between data frames and batches is an
  external collaborator, "convert batch to and from data-frame".  The two
  conversions are parameters; \<^verbatim>\<open>RecordBatch.from_pandas\<close> and
  \<^verbatim>\<open>Table.to_pandas\<close> call them with the arguments they are given.
\<close>

definition RecordBatch_from_pandas ::
  "('df \<Rightarrow> pyobj \<Rightarrow> pyobj \<Rightarrow> error + record_batch) \<Rightarrow> 'df \<Rightarrow> pyobj \<Rightarrow> pyobj \<Rightarrow> world \<Rightarrow>
   (error + record_batch) \<times> world" where
  "RecordBatch_from_pandas conv df nthreads preserve_index w =
     (conv df nthreads preserve_index, record_call (Call_from_pandas nthreads preserve_index) w)"

definition Table_to_pandas ::
  "('t \<Rightarrow> (string \<times> pyobj) list \<Rightarrow> error + 'df) \<Rightarrow> 't \<Rightarrow> (string \<times> pyobj) list \<Rightarrow> world \<Rightarrow>
   (error + 'df) \<times> world" where
  "Table_to_pandas conv t kwargs w = (conv t kwargs, record_call (Call_to_pandas kwargs) w)"

section \<open>The pandas helpers of the module\<close>

text \<open>
  \<^verbatim>\<open>_ReadPandasOption.read_pandas(self, **options)\<close>.  The mixin is inherited
  by the stream reader and by the file reader, so \<^verbatim>\<open>self.read_all\<close> is the
  method of the receiver's class, a parameter here, as is
  \<^verbatim>\<open>table.to_pandas\<close>.  The reader comes back in the state in which
  \<^verbatim>\<open>read_all\<close> left it.
\<close>

definition read_pandas ::
  "('reader \<Rightarrow> 'w \<Rightarrow> (error + ('t \<times> 'reader)) \<times> 'w) \<Rightarrow> ('t \<Rightarrow> 'kw \<Rightarrow> 'w \<Rightarrow> (error + 'df) \<times> 'w) \<Rightarrow>
   'reader \<Rightarrow> 'kw \<Rightarrow> 'w \<Rightarrow> (error + ('df \<times> 'reader)) \<times> 'w" where
  "read_pandas read_all_method to_pandas_method self options w =
     (case read_all_method self w of
        (Inl e, w1) \<Rightarrow> (Inl e, w1)
      | (Inr (t, self1), w1) \<Rightarrow>
          (case to_pandas_method t options w1 of
             (Inl e, w2) \<Rightarrow> (Inl e, w2)
           | (Inr df, w2) \<Rightarrow> (Inr (df, self1), w2)))"

text \<open>
  \<^verbatim>\<open>serialize_pandas(df, *, nthreads=None, preserve_index=None)\<close>.  The writer
  is constructed with neither \<^verbatim>\<open>options\<close> nor
  \<^verbatim>\<open>use_legacy_format\<close>.  The \<^verbatim>\<open>with\<close> block calls
  \<^verbatim>\<open>__exit__\<close> on both ways out; an exception of the body is raised again
  after it unless \<^verbatim>\<open>__exit__\<close> raises itself.
\<close>

definition serialize_pandas ::
  "('df \<Rightarrow> pyobj \<Rightarrow> pyobj \<Rightarrow> error + record_batch) \<Rightarrow> environ \<Rightarrow> 'df \<Rightarrow> pyobj \<Rightarrow> pyobj \<Rightarrow> world \<Rightarrow>
   (error + buffer) \<times> world" where
  "serialize_pandas conv env df nthreads preserve_index w =
     (case RecordBatch_from_pandas conv df nthreads preserve_index w of
        (Inl e, w1) \<Rightarrow> (Inl e, w1)
      | (Inr batch, w1) \<Rightarrow>
          (case BufferOutputStream w1 of
             (sink, w2) \<Rightarrow>
               (case RecordBatchStreamWriter StreamWriter_open env sink (rb_schema batch)
                       None PyNone w2 of
                  (Inl e, w3) \<Rightarrow> (Inl e, w3)
                | (Inr writer, w3) \<Rightarrow>
                    (case write_batch writer batch w3 of
                       (Inl e, w4) \<Rightarrow>
                         (case stream_writer_exit writer w4 of
                            (Inl e', w5) \<Rightarrow> (Inl e', w5)
                          | (Inr writer', w5) \<Rightarrow> (Inl e, w5))
                     | (Inr writer1, w4) \<Rightarrow>
                         (case stream_writer_exit writer1 w4 of
                            (Inl e, w5) \<Rightarrow> (Inl e, w5)
                          | (Inr writer2, w5) \<Rightarrow> getvalue sink w5)))))"

text \<open>\<^verbatim>\<open>deserialize_pandas(buf, *, use_threads=True)\<close>.  The conversion is
  called after the \<^verbatim>\<open>with\<close> block has been left.\<close>

definition deserialize_pandas ::
  "(table \<Rightarrow> (string \<times> pyobj) list \<Rightarrow> error + 'df) \<Rightarrow> buffer \<Rightarrow> pyobj \<Rightarrow> world \<Rightarrow>
   (error + 'df) \<times> world" where
  "deserialize_pandas conv buf use_threads w =
     (case BufferReader buf w of
        (buffer_reader, w1) \<Rightarrow>
          (case RecordBatchStreamReader StreamReader_open buffer_reader w1 of
             (Inl e, w2) \<Rightarrow> (Inl e, w2)
           | (Inr reader, w2) \<Rightarrow>
               (case read_all reader w2 of
                  (Inl e, w3) \<Rightarrow>
                    (case stream_reader_exit reader w3 of (u, w4) \<Rightarrow> (Inl e, w4))
                | (Inr (t, reader1), w3) \<Rightarrow>
                    (case stream_reader_exit reader1 w3 of
                       (u, w4) \<Rightarrow>
                         Table_to_pandas conv t [(''use_threads'', use_threads)] w4))))"

section \<open>The stream of a single batch\<close>

text \<open>
  Modelled from the spec: what the stream protocol puts into a sink for one schema and
  one batch written with the options \<open>opts\<close>: the Schema message, the
  DictionaryBatch messages of the batch, its RecordBatch message, and the
  end-of-stream marker.
\<close>

definition single_batch_stream :: "IpcWriteOptions \<Rightarrow> record_batch \<Rightarrow> buffer" where
  "single_batch_stream opts batch =
     envelope opts (SchemaMsg (rb_schema batch)) #
     map (envelope opts)
       (fst (dictionary_messages [] 0 (rb_columns batch)) @
        [RecordBatchMsg (rb_num_rows batch) (wire_columns 0 (rb_columns batch))]) @
     [EndOfStream (framing_of opts)]"

fun is_record_batch_frame :: "frame \<Rightarrow> bool" where
  "is_record_batch_frame (Message f v (RecordBatchMsg n wcols)) = True"
| "is_record_batch_frame fr = False"

section \<open>Properties of option resolution\<close>

lemmas int_defs = py_int_def strip_def decimal_def is_space_def is_digit_def digit_val_def

lemmas repr_defs = invalid_literal_def py_repr_def repr_char_def hex_digit_def Let_def

lemma py_int_1: "py_int ''1'' = Inr 1"
  by (simp add: int_defs)

lemma py_int_0: "py_int ''0'' = Inr 0"
  by (simp add: int_defs)


lemma digit_val_digit:
  "is_digit c \<Longrightarrow> 0 \<le> digit_val c \<and> (digit_val c = 0 \<longleftrightarrow> c = CHR ''0'')"
  by (auto simp: is_digit_def digit_val_def)

lemma digit_not_space: "is_digit c \<Longrightarrow> \<not> is_space c"
  by (auto simp: is_digit_def is_space_def)

lemma dropWhile_none: "\<forall>x\<in>set xs. \<not> P x \<Longrightarrow> dropWhile P xs = xs"
  by (cases xs) auto

lemma strip_no_space: "\<forall>c\<in>set s. \<not> is_space c \<Longrightarrow> strip s = s"
  by (simp add: strip_def dropWhile_none)



text \<open>A run of decimal digits is read as its value, which is zero exactly when every
  digit is the digit zero.\<close>

lemma more_digits_all_digits:
  "\<forall>c\<in>set s. is_digit c \<Longrightarrow> 0 \<le> acc \<Longrightarrow>
   \<exists>r. more_digits acc s = Some r \<and> 0 \<le> r \<and> (r = 0 \<longleftrightarrow> acc = 0 \<and> (\<forall>c\<in>set s. c = CHR ''0''))"
proof (induction acc s rule: more_digits.induct)
  case (1 acc)
  then show ?case by simp
next
  case (2 acc c)
  then have d: "is_digit c" by simp
  from digit_val_digit[OF d] "2.prems"(2) have "acc * 10 + digit_val c = 0 \<longleftrightarrow> acc = 0 \<and> c = CHR ''0''"
    by auto
  with d digit_val_digit[OF d] "2.prems"(2) show ?case by simp
next
  case (3 acc c d cs)
  then have dc: "is_digit c" and rest: "\<forall>x\<in>set (d # cs). is_digit x" by simp_all
  from digit_val_digit[OF dc] "3.prems"(2)
  have nn: "0 \<le> acc * 10 + digit_val c"
    and z: "acc * 10 + digit_val c = 0 \<longleftrightarrow> acc = 0 \<and> c = CHR ''0''"
    by auto
  from "3.IH"(1)[OF dc rest nn] obtain r where
    r: "more_digits (acc * 10 + digit_val c) (d # cs) = Some r" "0 \<le> r"
      "r = 0 \<longleftrightarrow> acc * 10 + digit_val c = 0 \<and> (\<forall>x\<in>set (d # cs). x = CHR ''0'')"
    by blast
  from r z dc show ?case by auto
qed

lemma py_int_digits:
  assumes "s \<noteq> []" and "\<forall>c\<in>set s. is_digit c"
  shows "\<exists>n. py_int s = Inr n \<and> (n \<noteq> 0 \<longleftrightarrow> (\<exists>c\<in>set s. c \<noteq> CHR ''0''))"
proof -
  from assms obtain c cs where s: "s = c # cs" by (cases s) auto
  with assms have dc: "is_digit c" and dcs: "\<forall>x\<in>set cs. is_digit x" by simp_all
  from assms(2) have "strip s = s"
    by (simp add: strip_no_space digit_not_space)
  moreover from dc have "c \<noteq> CHR ''-''" "c \<noteq> CHR ''+''"
    by (auto simp: is_digit_def)
  moreover from more_digits_all_digits[OF dcs, of "digit_val c"] digit_val_digit[OF dc]
  obtain r where "more_digits (digit_val c) cs = Some r"
    "r = 0 \<longleftrightarrow> c = CHR ''0'' \<and> (\<forall>x\<in>set cs. x = CHR ''0'')"
    by auto
  ultimately show ?thesis
    using dc by (auto simp: py_int_def decimal_def s)
qed




lemma env_flag_absent: "env k = None \<Longrightarrow> env_flag env k = Inr False"
  by (simp add: env_flag_def environ_get_def py_int_0)

lemma env_flag_set:
  "env k = Some s \<Longrightarrow>
   env_flag env k = (case py_int s of Inl e \<Rightarrow> Inl e | Inr n \<Rightarrow> Inr (n \<noteq> 0))"
  by (simp add: env_flag_def environ_get_def)


lemma resolve_both:
  "options \<noteq> PyNone \<Longrightarrow> get_legacy_format_default env (Some b) options = Inl at_most_one"
  by (simp add: get_legacy_format_default_def)

lemma resolve_instance:
  "get_legacy_format_default env None (PyIpcWriteOptions opts) = Inr opts"
  by (simp add: get_legacy_format_default_def)

lemma resolve_truthy:
  "truthy options \<Longrightarrow>
   get_legacy_format_default env None options =
     (case options of
        PyIpcWriteOptions opts \<Rightarrow> Inr opts
      | _ \<Rightarrow> Inl (expected_IpcWriteOptions options))"
  by (simp add: get_legacy_format_default_def)

lemma resolve_defaults:
  "\<not> truthy options \<Longrightarrow> legacy = None \<or> options = PyNone \<Longrightarrow>
   get_legacy_format_default env legacy options =
     (case (case legacy of
              None \<Rightarrow> env_flag env ''ARROW_PRE_0_15_IPC_FORMAT''
            | Some b \<Rightarrow> Inr b) of
        Inl e \<Rightarrow> Inl e
      | Inr legacy_flag \<Rightarrow>
          (case env_flag env ''ARROW_PRE_1_0_METADATA_VERSION'' of
             Inl e \<Rightarrow> Inl e
           | Inr pre_1_0 \<Rightarrow>
               Inr \<lparr>use_legacy_format = legacy_flag,
                    metadata_version = (if pre_1_0 then V4 else V5)\<rparr>))"
  by (auto simp: get_legacy_format_default_def)



text \<open>An options value with a true truth value is validated and used verbatim: an
  \<^verbatim>\<open>IpcWriteOptions\<close> instance is returned unchanged, whatever the environment
  holds, and is what the writer's \<^verbatim>\<open>_open\<close> receives; any other value raises
  the \<^verbatim>\<open>TypeError\<close>.\<close>

lemma truthy_options_validated:
  "get_legacy_format_default env None (PyIpcWriteOptions opts) = Inr opts
   \<and> RecordBatchStreamWriter lib_open1 env sink schema None (PyIpcWriteOptions opts) w =
       lib_open1 sink schema opts w
   \<and> RecordBatchFileWriter lib_open2 env sink schema None (PyIpcWriteOptions opts) w =
       lib_open2 sink schema opts w
   \<and> (truthy options \<longrightarrow> (\<forall>opts'. options \<noteq> PyIpcWriteOptions opts') \<longrightarrow>
        get_legacy_format_default env None options =
          Inl (TypeError (''expected IpcWriteOptions, got '' @ type_str options))
        \<and> RecordBatchStreamWriter lib_open1 env sink schema None options w =
          (Inl (TypeError (''expected IpcWriteOptions, got '' @ type_str options)), w)
        \<and> RecordBatchFileWriter lib_open2 env sink schema None options w =
          (Inl (TypeError (''expected IpcWriteOptions, got '' @ type_str options)), w))"
proof -
  have "get_legacy_format_default env None options =
          Inl (TypeError (''expected IpcWriteOptions, got '' @ type_str options))"
    if "truthy options" "\<forall>opts'. options \<noteq> PyIpcWriteOptions opts'"
    using that by (cases options) (simp_all add: resolve_truthy expected_IpcWriteOptions_def)
  then show ?thesis
    by (simp add: resolve_instance RecordBatchStreamWriter_def RecordBatchFileWriter_def)
qed

lemma truthy_options_validated_example:
  "get_legacy_format_default [''ARROW_PRE_1_0_METADATA_VERSION'' \<mapsto> ''yes''] None
     (PyIpcWriteOptions \<lparr>use_legacy_format = True, metadata_version = V4\<rparr>) =
     Inr \<lparr>use_legacy_format = True, metadata_version = V4\<rparr>
   \<and> get_legacy_format_default Map.empty None (PyInt 5) =
       Inl (TypeError ''expected IpcWriteOptions, got <class 'int'>'')"
  by (simp add: resolve_instance resolve_truthy expected_IpcWriteOptions_def type_str_def)

section \<open>Properties of the stream protocol\<close>

lemma dictionary_update_applies:
  assumes "dictionary_update (map_of known i) i d = Some m"
  shows "\<exists>d' is_delta. m = DictionaryBatchMsg i d' is_delta \<and>
     apply_dictionary known i d' is_delta = Inr ((i, d) # known)"
proof (cases "map_of known i")
  case None
  with assms show ?thesis
    by (auto simp: dictionary_update_def apply_dictionary_def)
next
  case (Some d0)
  show ?thesis
  proof (cases "length d0 < length d \<and> take (length d0) d = d0")
    case True
    then have "d0 @ drop (length d0) d = d"
      by (metis append_take_drop_id)
    with assms Some True show ?thesis
      by (auto simp: dictionary_update_def apply_dictionary_def split: if_splits)
  next
    case False
    with assms Some show ?thesis
      by (auto simp: dictionary_update_def apply_dictionary_def split: if_splits)
  qed
qed

lemma dictionary_update_unchanged:
  "dictionary_update (map_of known i) i d = None \<Longrightarrow> map_of known i = Some d"
  by (simp add: dictionary_update_def split: option.splits if_splits)

lemma dictionary_messages_below:
  "dictionary_messages known i cols = (ms, known') \<Longrightarrow> j < i \<Longrightarrow> map_of known' j = map_of known j"
proof (induction known i cols arbitrary: ms known' rule: dictionary_messages.induct)
  case (1 known i)
  then show ?case by simp
next
  case (2 known i vs cols)
  from "2.prems" have "dictionary_messages known (Suc i) cols = (ms, known')" by simp
  from "2.IH"[OF this] "2.prems"(2) show ?case by simp
next
  case (3 known i d idx cols)
  show ?case
  proof (cases "dictionary_update (map_of known i) i d")
    case None
    with "3.prems" have "dictionary_messages known (Suc i) cols = (ms, known')" by simp
    from "3.IH"(1)[OF None this] "3.prems"(2) show ?thesis by simp
  next
    case (Some m)
    with "3.prems" obtain ms' where "dictionary_messages ((i, d) # known) (Suc i) cols = (ms', known')"
      by (cases "dictionary_messages ((i, d) # known) (Suc i) cols") simp
    from "3.IH"(2)[OF Some this] "3.prems"(2) show ?thesis by simp
  qed
qed


lemma decode_wire_columns:
  "dictionary_messages known i cols = (ms, known') \<Longrightarrow>
   decode_columns known' (wire_columns i cols) = Some cols"
proof (induction known i cols arbitrary: ms known' rule: dictionary_messages.induct)
  case (1 known i)
  then show ?case by simp
next
  case (2 known i vs cols)
  from "2.prems" have "dictionary_messages known (Suc i) cols = (ms, known')" by simp
  from "2.IH"[OF this] show ?case by simp
next
  case (3 known i d idx cols)
  show ?case
  proof (cases "dictionary_update (map_of known i) i d")
    case None
    with "3.prems" have rest: "dictionary_messages known (Suc i) cols = (ms, known')" by simp
    have "map_of known' i = Some d"
      using dictionary_messages_below[OF rest, of i] dictionary_update_unchanged[OF None] by simp
    with "3.IH"(1)[OF None rest] show ?thesis by simp
  next
    case (Some m)
    with "3.prems" obtain ms' where rest: "dictionary_messages ((i, d) # known) (Suc i) cols = (ms', known')"
      by (cases "dictionary_messages ((i, d) # known) (Suc i) cols") simp
    have "map_of known' i = Some d"
      using dictionary_messages_below[OF rest, of i] by simp
    with "3.IH"(2)[OF Some rest] show ?thesis by simp
  qed
qed

lemma next_batch_dictionaries:
  "dictionary_messages known i cols = (ms, known') \<Longrightarrow>
   next_batch s known (map (envelope opts) ms @ rest) = next_batch s known' rest"
proof (induction known i cols arbitrary: ms known' rule: dictionary_messages.induct)
  case (1 known i)
  then show ?case by simp
next
  case (2 known i vs cols)
  from "2.prems" have "dictionary_messages known (Suc i) cols = (ms, known')" by simp
  from "2.IH"[OF this] show ?case .
next
  case (3 known i d idx cols)
  show ?case
  proof (cases "dictionary_update (map_of known i) i d")
    case None
    with "3.prems" have "dictionary_messages known (Suc i) cols = (ms, known')" by simp
    from "3.IH"(1)[OF None this] show ?thesis .
  next
    case (Some m)
    with "3.prems" obtain ms' where tl: "dictionary_messages ((i, d) # known) (Suc i) cols = (ms', known')"
      and ms: "ms = m # ms'"
      by (cases "dictionary_messages ((i, d) # known) (Suc i) cols") auto
    from dictionary_update_applies[OF Some] obtain d' is_delta where
      m: "m = DictionaryBatchMsg i d' is_delta" and
      app: "apply_dictionary known i d' is_delta = Inr ((i, d) # known)" by blast
    have "next_batch s known (map (envelope opts) ms @ rest) =
          next_batch s ((i, d) # known) (map (envelope opts) ms' @ rest)"
      by (simp add: ms m envelope_def app)
    with "3.IH"(2)[OF Some tl] show ?thesis by simp
  qed
qed

lemma next_batch_written:
  assumes "dictionary_messages known 0 cols = (ms, known')"
  shows "next_batch s known
           (map (envelope opts) (ms @ [RecordBatchMsg n (wire_columns 0 cols)]) @ rest) =
         Inr (Some \<lparr>rb_schema = s, rb_num_rows = n, rb_columns = cols\<rparr>, known', rest)"
proof -
  have "next_batch s known
          (map (envelope opts) ms @ envelope opts (RecordBatchMsg n (wire_columns 0 cols)) # rest) =
        next_batch s known' (envelope opts (RecordBatchMsg n (wire_columns 0 cols)) # rest)"
    by (rule next_batch_dictionaries[OF assms])
  also have "\<dots> = Inr (Some \<lparr>rb_schema = s, rb_num_rows = n, rb_columns = cols\<rparr>, known', rest)"
    by (simp add: envelope_def decode_wire_columns[OF assms])
  finally show ?thesis by simp
qed

lemma dictionary_messages_kind:
  "dictionary_messages known i cols = (ms, known') \<Longrightarrow> m \<in> set ms \<Longrightarrow>
   \<exists>j d b. m = DictionaryBatchMsg j d b"
proof (induction known i cols arbitrary: ms known' rule: dictionary_messages.induct)
  case (1 known i)
  then show ?case by simp
next
  case (2 known i vs cols)
  from "2.prems" have "dictionary_messages known (Suc i) cols = (ms, known')" by simp
  from "2.IH"[OF this "2.prems"(2)] show ?case .
next
  case (3 known i d idx cols)
  show ?case
  proof (cases "dictionary_update (map_of known i) i d")
    case None
    with "3.prems" have "dictionary_messages known (Suc i) cols = (ms, known')" by simp
    from "3.IH"(1)[OF None this "3.prems"(2)] show ?thesis .
  next
    case (Some m0)
    with "3.prems" obtain ms' where tl: "dictionary_messages ((i, d) # known) (Suc i) cols = (ms', known')"
      and ms: "ms = m0 # ms'"
      by (cases "dictionary_messages ((i, d) # known) (Suc i) cols") auto
    from dictionary_update_applies[OF Some] obtain d' is_delta where
      m0: "m0 = DictionaryBatchMsg i d' is_delta" by blast
    from "3.prems"(2) ms have "m = m0 \<or> m \<in> set ms'" by simp
    then show ?thesis
    proof
      assume "m = m0"
      with m0 show ?thesis by blast
    next
      assume "m \<in> set ms'"
      from "3.IH"(2)[OF Some tl this] show ?thesis .
    qed
  qed
qed

lemma one_record_batch_frame:
  "length (filter is_record_batch_frame (single_batch_stream opts batch)) = 1"
proof -
  obtain ms known' where dm: "dictionary_messages [] 0 (rb_columns batch) = (ms, known')"
    by (cases "dictionary_messages [] 0 (rb_columns batch)")
  have "\<not> is_record_batch_frame (envelope opts m)" if "m \<in> set ms" for m
  proof -
    from dictionary_messages_kind[OF dm that] obtain j d b where "m = DictionaryBatchMsg j d b"
      by blast
    then show ?thesis by (simp add: envelope_def)
  qed
  then have "filter is_record_batch_frame (map (envelope opts) ms) = []"
    by (simp add: filter_empty_conv)
  then show ?thesis
    by (simp add: single_batch_stream_def dm envelope_def)
qed


lemma sink_write_ok:
  "r < length (sinks w) \<Longrightarrow>
   sink_write r fs w = (Inr (), w\<lparr>sinks := (sinks w)[r := sinks w ! r @ fs]\<rparr>)"
  by (simp add: sink_write_def)

lemma serialize_pandas_ok:
  assumes conv: "conv df nthreads preserve_index = Inr batch"
      and opts: "get_legacy_format_default env None PyNone = Inr opts"
  shows "serialize_pandas conv env df nthreads preserve_index w =
     (Inr (single_batch_stream opts batch),
      w\<lparr>sinks := sinks w @ [single_batch_stream opts batch],
        lib_calls := lib_calls w @
          [Call_from_pandas nthreads preserve_index,
           Call_BufferOutputStream (length (sinks w)),
           Call_StreamWriter_open (length (sinks w)) (rb_schema batch) opts,
           Call_write_batch (length (sinks w)) batch,
           Call_writer_close (length (sinks w)),
           Call_getvalue (length (sinks w))]\<rparr>)"
proof -
  obtain ms known' where dm: "dictionary_messages [] 0 (rb_columns batch) = (ms, known')"
    by (cases "dictionary_messages [] 0 (rb_columns batch)")
  show ?thesis
    by (simp add: serialize_pandas_def RecordBatch_from_pandas_def conv BufferOutputStream_def
        RecordBatchStreamWriter_def opts StreamWriter_open_def stream_writer_open_def
        unopened_writer_def record_call_def sink_write_def write_batch_def dm
        stream_writer_exit_def stream_writer_close_def getvalue_def single_batch_stream_def
        Let_def)
qed

lemma serialize_pandas_conversion_error:
  "conv df nthreads preserve_index = Inl e \<Longrightarrow>
   serialize_pandas conv env df nthreads preserve_index w =
     (Inl e, record_call (Call_from_pandas nthreads preserve_index) w)"
  by (simp add: serialize_pandas_def RecordBatch_from_pandas_def)

lemma deserialize_pandas_ok:
  assumes "buf = Message f v (SchemaMsg s) # rest"
      and "drain \<lparr>sr_phase = SchemaRead, sr_schema = s, sr_dicts = [], sr_rest = rest\<rparr> [] =
             Inr (batches, reader')"
  shows "deserialize_pandas conv buf use_threads w =
     (conv \<lparr>t_schema = s, t_batches = batches\<rparr> [(''use_threads'', use_threads)],
      w\<lparr>lib_calls := lib_calls w @
          [Call_BufferReader buf, Call_StreamReader_open, Call_read_all, Call_reader_exit,
           Call_to_pandas [(''use_threads'', use_threads)]]\<rparr>)"
  using assms
  by (simp add: deserialize_pandas_def BufferReader_def RecordBatchStreamReader_def
      StreamReader_open_def stream_reader_open_def unopened_reader_def read_all_def
      stream_reader_exit_def Table_to_pandas_def record_call_def Let_def)

lemma drain_single_batch_stream:
  "\<exists>reader'. drain \<lparr>sr_phase = SchemaRead, sr_schema = rb_schema batch, sr_dicts = [],
                      sr_rest = tl (single_batch_stream opts batch)\<rparr> [] =
               Inr ([batch], reader')"
proof -
  obtain ms known' where dm: "dictionary_messages [] 0 (rb_columns batch) = (ms, known')"
    by (cases "dictionary_messages [] 0 (rb_columns batch)")
  let ?r0 = "\<lparr>sr_phase = SchemaRead, sr_schema = rb_schema batch, sr_dicts = [],
              sr_rest = tl (single_batch_stream opts batch)\<rparr>"
  let ?r1 = "\<lparr>sr_phase = Reading, sr_schema = rb_schema batch, sr_dicts = known',
              sr_rest = [EndOfStream (framing_of opts)]\<rparr>"
  let ?r2 = "\<lparr>sr_phase = Exhausted, sr_schema = rb_schema batch, sr_dicts = known',
              sr_rest = []\<rparr>"
  have first: "read_next_batch ?r0 = Inr (Some batch, ?r1)"
    using next_batch_written[OF dm, of "rb_schema batch" opts "rb_num_rows batch"
        "[EndOfStream (framing_of opts)]"]
    by (simp add: read_next_batch_def single_batch_stream_def dm)
  have second: "read_next_batch ?r1 = Inr (None, ?r2)"
    by (simp add: read_next_batch_def)
  have "drain ?r0 [] = drain ?r1 [batch]"
    by (subst drain.simps) (simp add: first)
  also have "\<dots> = Inr ([batch], ?r2)"
    by (subst drain.simps) (simp add: second)
  finally show ?thesis by blast
qed

lemma round_trip:
  assumes conv: "conv_from df nthreads preserve_index = Inr batch"
      and opts: "get_legacy_format_default env None PyNone = Inr opts"
  shows "\<exists>buf w'. serialize_pandas conv_from env df nthreads preserve_index w = (Inr buf, w') \<and>
           fst (deserialize_pandas conv_to buf use_threads w') =
             conv_to \<lparr>t_schema = rb_schema batch, t_batches = [batch]\<rparr>
               [(''use_threads'', use_threads)]"
proof -
  obtain reader' where dr:
    "drain \<lparr>sr_phase = SchemaRead, sr_schema = rb_schema batch, sr_dicts = [],
            sr_rest = tl (single_batch_stream opts batch)\<rparr> [] = Inr ([batch], reader')"
    using drain_single_batch_stream by blast
  have buf: "single_batch_stream opts batch =
      Message (framing_of opts) (metadata_version opts) (SchemaMsg (rb_schema batch)) #
      tl (single_batch_stream opts batch)"
    by (simp add: single_batch_stream_def envelope_def)
  show ?thesis
    by (simp add: serialize_pandas_ok[where conv = conv_from and df = df, OF conv opts]
        deserialize_pandas_ok[OF buf dr])
qed

lemma read_pandas_ok:
  "read_all_method self w = (Inr (t, self1), w1) \<Longrightarrow>
   read_pandas read_all_method (Table_to_pandas conv) self options w =
     (case conv t options of Inl e \<Rightarrow> Inl e | Inr df \<Rightarrow> Inr (df, self1),
      record_call (Call_to_pandas options) w1)"
  by (simp add: read_pandas_def Table_to_pandas_def split: sum.splits)

lemma read_pandas_error:
  "read_all_method self w = (Inl e, w1) \<Longrightarrow>
   read_pandas read_all_method to_pandas_method self options w = (Inl e, w1)"
  by (simp add: read_pandas_def)

section \<open>The claims about option resolution and the constructors\<close>

text \<open>
  C1.  Constructing a stream or file writer, through the class or through
  \<^verbatim>\<open>new_stream\<close> / \<^verbatim>\<open>new_file\<close>, with an \<^verbatim>\<open>options\<close> value that
  is not \<^verbatim>\<open>None\<close> and a \<^verbatim>\<open>use_legacy_format\<close> boolean raises the
  \<^verbatim>\<open>ValueError\<close> "Can provide at most one of options and use_legacy_format",
  whatever the two values, the environment and the inherited \<^verbatim>\<open>_open\<close> are;
  the world is left as it was, so \<^verbatim>\<open>_open\<close> has not run and nothing has been
  written.
\<close>

theorem C1_options_and_legacy_rejected:
  assumes "options \<noteq> PyNone"
  shows "RecordBatchStreamWriter lib_open1 env sink schema (Some b) options w = (Inl at_most_one, w)
       \<and> RecordBatchFileWriter lib_open2 env sink schema (Some b) options w = (Inl at_most_one, w)
       \<and> new_stream lib_open3 env sink schema (Some b) options w = (Inl at_most_one, w)
       \<and> new_file lib_open4 env sink schema (Some b) options w = (Inl at_most_one, w)"
  using assms
  by (simp add: RecordBatchStreamWriter_def RecordBatchFileWriter_def new_stream_def
      new_file_def resolve_both)

theorem C1_options_and_legacy_rejected_witness:
  "PyIpcWriteOptions \<lparr>use_legacy_format = False, metadata_version = V5\<rparr> \<noteq> PyNone
   \<and> RecordBatchStreamWriter (\<lambda>sink schema opts w. (Inr opts, Suc w)) Map.empty (0::nat) (0::nat)
        (Some False) (PyIpcWriteOptions \<lparr>use_legacy_format = False, metadata_version = V5\<rparr>) (0::nat)
       = (Inl at_most_one, 0)
   \<and> RecordBatchFileWriter (\<lambda>sink schema opts w. (Inr opts, Suc w)) Map.empty (0::nat) (0::nat)
        (Some False) (PyIpcWriteOptions \<lparr>use_legacy_format = False, metadata_version = V5\<rparr>) (0::nat)
       = (Inl at_most_one, 0)
   \<and> new_stream (\<lambda>sink schema opts w. (Inr opts, Suc w)) Map.empty (0::nat) (0::nat)
        (Some False) (PyIpcWriteOptions \<lparr>use_legacy_format = False, metadata_version = V5\<rparr>) (0::nat)
       = (Inl at_most_one, 0)
   \<and> new_file (\<lambda>sink schema opts w. (Inr opts, Suc w)) Map.empty (0::nat) (0::nat)
        (Some False) (PyIpcWriteOptions \<lparr>use_legacy_format = False, metadata_version = V5\<rparr>) (0::nat)
       = (Inl at_most_one, 0)"
  using C1_options_and_legacy_rejected
    [of "PyIpcWriteOptions \<lparr>use_legacy_format = False, metadata_version = V5\<rparr>"
        "\<lambda>sink schema opts w. (Inr opts, Suc w)" Map.empty "0::nat" "0::nat" False "0::nat"
        "\<lambda>sink schema opts w. (Inr opts, Suc w)" "\<lambda>sink schema opts w. (Inr opts, Suc w)"
        "\<lambda>sink schema opts w. (Inr opts, Suc w)"]
  by simp

text \<open>
  C2 as stated fails: with \<^verbatim>\<open>ARROW_PRE_1_0_METADATA_VERSION\<close> set to
  \<^verbatim>\<open>"yes"\<close>, which is not a true value, no options with V5 are returned, also
  when \<^verbatim>\<open>use_legacy_format\<close> is given: resolution raises
  \<^verbatim>\<open>ValueError\<close>.  The same holds for \<^verbatim>\<open>ARROW_PRE_0_15_IPC_FORMAT\<close> set
  to the empty string when both arguments are omitted.
\<close>

theorem C2_counterexample:
  "get_legacy_format_default [''ARROW_PRE_1_0_METADATA_VERSION'' \<mapsto> ''yes''] (Some True) PyNone =
     Inl (ValueError
           (''invalid literal for int() with base 10: '' @ [CHR 0x27] @ ''yes'' @ [CHR 0x27]))
   \<and> get_legacy_format_default [''ARROW_PRE_1_0_METADATA_VERSION'' \<mapsto> ''yes''] None PyNone =
     Inl (ValueError
           (''invalid literal for int() with base 10: '' @ [CHR 0x27] @ ''yes'' @ [CHR 0x27]))
   \<and> get_legacy_format_default [''ARROW_PRE_0_15_IPC_FORMAT'' \<mapsto> ''''] None PyNone =
     Inl (ValueError (''invalid literal for int() with base 10: '' @ [CHR 0x27, CHR 0x27]))"
  by (simp add: get_legacy_format_default_def env_flag_def environ_get_def int_defs repr_defs)

text \<open>
  C2, amended.  When no explicit options value is used (\<^verbatim>\<open>options\<close> is
  \<^verbatim>\<open>None\<close> or has a false truth value, and the mutual-exclusion test has
  passed) and every variable that is read is absent or holds a value that
  \<^verbatim>\<open>int\<close> accepts, resolution returns options whose legacy flag is the
  \<^verbatim>\<open>use_legacy_format\<close> boolean if one was given and otherwise the truth value
  \<^verbatim>\<open>bool(int(value))\<close> of \<^verbatim>\<open>ARROW_PRE_0_15_IPC_FORMAT\<close> (false when
  absent), and whose metadata version is V4 exactly when
  \<^verbatim>\<open>ARROW_PRE_1_0_METADATA_VERSION\<close> is set and \<^verbatim>\<open>bool(int(value))\<close> is
  true, else V5.  When a variable that is read holds a value that \<^verbatim>\<open>int\<close>
  rejects, resolution raises the \<^verbatim>\<open>ValueError\<close> of \<^verbatim>\<open>int\<close> and
  returns no options; \<^verbatim>\<open>ARROW_PRE_0_15_IPC_FORMAT\<close> is read only when
  \<^verbatim>\<open>use_legacy_format\<close> is \<^verbatim>\<open>None\<close>.  The values \<^verbatim>\<open>"0"\<close> and
  \<^verbatim>\<open>"1"\<close> are false and true, and a string of decimal digits is true exactly
  when one of its digits is not 0.  With both arguments omitted and both variables
  unset the result is \<^verbatim>\<open>use_legacy_format=False\<close> and V5.
\<close>

theorem C2_defaults_from_environment:
  "(\<not> truthy options \<longrightarrow> (legacy = None \<or> options = PyNone) \<longrightarrow>
      (legacy = None \<longrightarrow>
         (env ''ARROW_PRE_0_15_IPC_FORMAT'' = None \<and> \<not> a) \<or>
         (\<exists>s n. env ''ARROW_PRE_0_15_IPC_FORMAT'' = Some s \<and> py_int s = Inr n \<and> a = (n \<noteq> 0))) \<longrightarrow>
      ((env ''ARROW_PRE_1_0_METADATA_VERSION'' = None \<and> \<not> m) \<or>
       (\<exists>s n. env ''ARROW_PRE_1_0_METADATA_VERSION'' = Some s \<and> py_int s = Inr n \<and> m = (n \<noteq> 0))) \<longrightarrow>
      get_legacy_format_default env legacy options =
        Inr \<lparr>use_legacy_format = (case legacy of None \<Rightarrow> a | Some b \<Rightarrow> b),
             metadata_version = (if m then V4 else V5)\<rparr>)
   \<and> (\<not> truthy options \<longrightarrow> legacy = None \<longrightarrow>
      env ''ARROW_PRE_0_15_IPC_FORMAT'' = Some s \<longrightarrow> py_int s = Inl e \<longrightarrow>
      get_legacy_format_default env legacy options = Inl e)
   \<and> (\<not> truthy options \<longrightarrow> (legacy = None \<or> options = PyNone) \<longrightarrow>
      (legacy = None \<longrightarrow>
         env ''ARROW_PRE_0_15_IPC_FORMAT'' = None \<or>
         (\<exists>s' n. env ''ARROW_PRE_0_15_IPC_FORMAT'' = Some s' \<and> py_int s' = Inr n)) \<longrightarrow>
      env ''ARROW_PRE_1_0_METADATA_VERSION'' = Some s \<longrightarrow> py_int s = Inl e \<longrightarrow>
      get_legacy_format_default env legacy options = Inl e)
   \<and> (s \<noteq> [] \<longrightarrow> (\<forall>c\<in>set s. c \<in> set ''0123456789'') \<longrightarrow>
      get_legacy_format_default [''ARROW_PRE_0_15_IPC_FORMAT'' \<mapsto> s] None PyNone =
        Inr \<lparr>use_legacy_format = (\<exists>c\<in>set s. c \<noteq> CHR ''0''), metadata_version = V5\<rparr>
      \<and> get_legacy_format_default [''ARROW_PRE_1_0_METADATA_VERSION'' \<mapsto> s] legacy PyNone =
        Inr \<lparr>use_legacy_format = (case legacy of None \<Rightarrow> False | Some b \<Rightarrow> b),
             metadata_version = (if \<exists>c\<in>set s. c \<noteq> CHR ''0'' then V4 else V5)\<rparr>)
   \<and> get_legacy_format_default Map.empty None PyNone =
       Inr \<lparr>use_legacy_format = False, metadata_version = V5\<rparr>
   \<and> get_legacy_format_default [''ARROW_PRE_0_15_IPC_FORMAT'' \<mapsto> ''1''] None PyNone =
       Inr \<lparr>use_legacy_format = True, metadata_version = V5\<rparr>
   \<and> get_legacy_format_default [''ARROW_PRE_0_15_IPC_FORMAT'' \<mapsto> ''0''] None PyNone =
       Inr \<lparr>use_legacy_format = False, metadata_version = V5\<rparr>
   \<and> get_legacy_format_default [''ARROW_PRE_1_0_METADATA_VERSION'' \<mapsto> ''1''] None PyNone =
       Inr \<lparr>use_legacy_format = False, metadata_version = V4\<rparr>
   \<and> get_legacy_format_default [''ARROW_PRE_1_0_METADATA_VERSION'' \<mapsto> ''0''] None PyNone =
       Inr \<lparr>use_legacy_format = False, metadata_version = V5\<rparr>
   \<and> get_legacy_format_default [''ARROW_PRE_0_15_IPC_FORMAT'' \<mapsto> ''1''] (Some False) PyNone =
       Inr \<lparr>use_legacy_format = False, metadata_version = V5\<rparr>"
proof (intro conjI impI, goal_cases)
  case 1
  from 1(4) have m: "env_flag env ''ARROW_PRE_1_0_METADATA_VERSION'' = Inr m"
    by (auto simp: env_flag_absent env_flag_set)
  show ?case
  proof (cases legacy)
    case None
    with 1(3) have "env_flag env ''ARROW_PRE_0_15_IPC_FORMAT'' = Inr a"
      by (auto simp: env_flag_absent env_flag_set)
    with None m 1(1,2) show ?thesis
      by (simp add: resolve_defaults)
  next
    case (Some b)
    with m 1(1,2) show ?thesis
      by (simp add: resolve_defaults)
  qed
next
  case 2
  then have "env_flag env ''ARROW_PRE_0_15_IPC_FORMAT'' = Inl e"
    by (simp add: env_flag_set)
  with 2(1,2) show ?case
    by (simp add: resolve_defaults)
next
  case 3
  then have m: "env_flag env ''ARROW_PRE_1_0_METADATA_VERSION'' = Inl e"
    by (simp add: env_flag_set)
  show ?case
  proof (cases legacy)
    case None
    with 3(3) have "\<exists>v. env_flag env ''ARROW_PRE_0_15_IPC_FORMAT'' = Inr v"
      by (auto simp: env_flag_absent env_flag_set)
    then obtain v where "env_flag env ''ARROW_PRE_0_15_IPC_FORMAT'' = Inr v" ..
    with None m 3(1,2) show ?thesis
      by (simp add: resolve_defaults)
  next
    case (Some b)
    with m 3(1,2) show ?thesis
      by (simp add: resolve_defaults)
  qed
next
  case 4
  then have "\<forall>c\<in>set s. is_digit c"
    by (simp add: is_digit_def)
  from py_int_digits[OF 4(1) this] obtain n where
    "py_int s = Inr n" "n \<noteq> 0 \<longleftrightarrow> (\<exists>c\<in>set s. c \<noteq> CHR ''0'')" by blast
  then have "env_flag [''ARROW_PRE_0_15_IPC_FORMAT'' \<mapsto> s] ''ARROW_PRE_0_15_IPC_FORMAT'' =
        Inr (\<exists>c\<in>set s. c \<noteq> CHR ''0'')"
    and "env_flag [''ARROW_PRE_0_15_IPC_FORMAT'' \<mapsto> s] ''ARROW_PRE_1_0_METADATA_VERSION'' =
        Inr False"
    by (simp_all add: env_flag_set env_flag_absent)
  then show ?case
    by (simp add: resolve_defaults)
next
  case 5
  then have "\<forall>c\<in>set s. is_digit c"
    by (simp add: is_digit_def)
  from py_int_digits[OF 5(1) this] obtain n where
    "py_int s = Inr n" "n \<noteq> 0 \<longleftrightarrow> (\<exists>c\<in>set s. c \<noteq> CHR ''0'')" by blast
  then have "env_flag [''ARROW_PRE_1_0_METADATA_VERSION'' \<mapsto> s] ''ARROW_PRE_1_0_METADATA_VERSION'' =
        Inr (\<exists>c\<in>set s. c \<noteq> CHR ''0'')"
    and "env_flag [''ARROW_PRE_1_0_METADATA_VERSION'' \<mapsto> s] ''ARROW_PRE_0_15_IPC_FORMAT'' =
        Inr False"
    by (simp_all add: env_flag_set env_flag_absent)
  then show ?case
    by (cases legacy) (simp_all add: resolve_defaults)
qed (simp_all add: resolve_defaults env_flag_absent env_flag_set py_int_0 py_int_1)

theorem C2_defaults_from_environment_witness:
  "get_legacy_format_default
     [''ARROW_PRE_0_15_IPC_FORMAT'' \<mapsto> ''+1'', ''ARROW_PRE_1_0_METADATA_VERSION'' \<mapsto> ''1_0'']
     None (PyInt 0) = Inr \<lparr>use_legacy_format = True, metadata_version = V4\<rparr>
   \<and> get_legacy_format_default [''ARROW_PRE_0_15_IPC_FORMAT'' \<mapsto> ''yes''] (Some False) PyNone =
       Inr \<lparr>use_legacy_format = False, metadata_version = V5\<rparr>
   \<and> get_legacy_format_default [''ARROW_PRE_0_15_IPC_FORMAT'' \<mapsto> ''yes''] None PyNone =
       Inl (ValueError
             (''invalid literal for int() with base 10: '' @ [CHR 0x27] @ ''yes'' @ [CHR 0x27]))
   \<and> get_legacy_format_default [''ARROW_PRE_1_0_METADATA_VERSION'' \<mapsto> ''yes''] (Some False) PyNone =
       Inl (ValueError
             (''invalid literal for int() with base 10: '' @ [CHR 0x27] @ ''yes'' @ [CHR 0x27]))
   \<and> get_legacy_format_default [''ARROW_PRE_0_15_IPC_FORMAT'' \<mapsto> ''007''] None PyNone =
       Inr \<lparr>use_legacy_format = True, metadata_version = V5\<rparr>
   \<and> get_legacy_format_default [''ARROW_PRE_1_0_METADATA_VERSION'' \<mapsto> ''00''] (Some True) PyNone =
       Inr \<lparr>use_legacy_format = True, metadata_version = V5\<rparr>"
proof -
  let ?K = "''ARROW_PRE_0_15_IPC_FORMAT''"
  let ?M = "''ARROW_PRE_1_0_METADATA_VERSION''"
  let ?bad = "ValueError
      (''invalid literal for int() with base 10: '' @ [CHR 0x27] @ ''yes'' @ [CHR 0x27])"
  have p1: "py_int ''+1'' = Inr 1" and p2: "py_int ''1_0'' = Inr 10"
    by (simp_all add: int_defs)
  have py: "py_int ''yes'' = Inl ?bad"
    by (simp add: int_defs repr_defs)
  have 1: "get_legacy_format_default [?K \<mapsto> ''+1'', ?M \<mapsto> ''1_0''] None (PyInt 0) =
      Inr \<lparr>use_legacy_format = True, metadata_version = V4\<rparr>"
    using C2_defaults_from_environment
      [where options = "PyInt 0" and legacy = None and env = "[?K \<mapsto> ''+1'', ?M \<mapsto> ''1_0'']"
         and a = True and m = True] p1 p2
    by simp
  have 2: "get_legacy_format_default [?K \<mapsto> ''yes''] (Some False) PyNone =
      Inr \<lparr>use_legacy_format = False, metadata_version = V5\<rparr>"
    using C2_defaults_from_environment
      [where options = PyNone and legacy = "Some False" and env = "[?K \<mapsto> ''yes'']"
         and m = False]
    by simp
  have 3: "get_legacy_format_default [?K \<mapsto> ''yes''] None PyNone = Inl ?bad"
    using C2_defaults_from_environment
      [where options = PyNone and legacy = None and env = "[?K \<mapsto> ''yes'']"
         and s = "''yes''" and e = ?bad] py
    by simp
  have 4: "get_legacy_format_default [?M \<mapsto> ''yes''] (Some False) PyNone = Inl ?bad"
    using C2_defaults_from_environment
      [where options = PyNone and legacy = "Some False" and env = "[?M \<mapsto> ''yes'']"
         and s = "''yes''" and e = ?bad] py
    by simp
  have 5: "get_legacy_format_default [?K \<mapsto> ''007''] None PyNone =
      Inr \<lparr>use_legacy_format = True, metadata_version = V5\<rparr>"
    using C2_defaults_from_environment[where s = "''007''"]
    by simp
  have 6: "get_legacy_format_default [?M \<mapsto> ''00''] (Some True) PyNone =
      Inr \<lparr>use_legacy_format = True, metadata_version = V5\<rparr>"
    using C2_defaults_from_environment[where s = "''00''" and legacy = "Some True"]
    by simp
  from 1 2 3 4 5 6 show ?thesis by simp
qed




text \<open>
  C4.  The claim is what the documentation and the first test of the function say,
  and the code does not do it for an options value that is supplied but has a false
  truth value: for the integer 0, the boolean \<^verbatim>\<open>False\<close> and the empty string,
  none of them an \<^verbatim>\<open>IpcWriteOptions\<close> instance, no \<^verbatim>\<open>TypeError\<close> is
  raised; the value is dropped and the defaults come back, from resolution and from
  the writer constructors alike.  The test \<^verbatim>\<open>elif options:\<close> of line 132 lets
  these values pass the \<^verbatim>\<open>isinstance\<close> check that the lines after it make,
  while line 129 (\<^verbatim>\<open>options is not None\<close>) counts them as supplied.
\<close>

theorem C4_falsy_options_not_validated:
  "get_legacy_format_default Map.empty None (PyInt 0) =
     Inr \<lparr>use_legacy_format = False, metadata_version = V5\<rparr>
   \<and> get_legacy_format_default Map.empty None (PyBool False) =
     Inr \<lparr>use_legacy_format = False, metadata_version = V5\<rparr>
   \<and> get_legacy_format_default Map.empty None (PyStr []) =
     Inr \<lparr>use_legacy_format = False, metadata_version = V5\<rparr>
   \<and> RecordBatchStreamWriter (\<lambda>sink schema opts w. (Inr opts, Suc w)) Map.empty (0::nat) (0::nat)
       None (PyInt 0) (0::nat) =
     (Inr \<lparr>use_legacy_format = False, metadata_version = V5\<rparr>, 1)
   \<and> RecordBatchFileWriter (\<lambda>sink schema opts w. (Inr opts, Suc w)) Map.empty (0::nat) (0::nat)
       None (PyBool False) (0::nat) =
     (Inr \<lparr>use_legacy_format = False, metadata_version = V5\<rparr>, 1)"
  by (simp add: resolve_defaults env_flag_absent RecordBatchStreamWriter_def
      RecordBatchFileWriter_def)



text \<open>
  C10.  The module-level functions construct exactly what the class constructors
  construct from the same arguments: \<^verbatim>\<open>new_stream\<close> the stream writer,
  \<^verbatim>\<open>new_file\<close> the file writer, \<^verbatim>\<open>open_stream\<close> the stream reader and
  \<^verbatim>\<open>open_file\<close> the file reader, for every sink, schema, source, footer offset,
  legacy flag, options value, environment and inherited \<^verbatim>\<open>_open\<close>.
\<close>

theorem C10_module_functions_are_constructors:
  "new_stream lib_open1 env sink schema legacy options w =
     RecordBatchStreamWriter lib_open1 env sink schema legacy options w
   \<and> new_file lib_open2 env sink schema legacy options w =
     RecordBatchFileWriter lib_open2 env sink schema legacy options w
   \<and> open_stream lib_open3 source w = RecordBatchStreamReader lib_open3 source w
   \<and> open_file lib_open4 source footer_offset w =
     RecordBatchFileReader lib_open4 source footer_offset w"
  by (simp add: new_stream_def new_file_def open_stream_def open_file_def)

section \<open>The claims about the pandas helpers\<close>

text \<open>
  C5.  Round trip through the two helpers.  For every data frame that the converter
  accepts (it returns a batch), with writer defaults that resolve to some options
  (either framing, either metadata version), \<^verbatim>\<open>serialize_pandas\<close> returns a
  buffer, and \<^verbatim>\<open>deserialize_pandas\<close> of that buffer returns what the converter
  makes of the table that has the batch's schema and exactly that one batch: the
  stream encoding loses nothing and reorders nothing.
\<close>

theorem C5_pandas_round_trip:
  assumes "conv_from df nthreads preserve_index = Inr batch"
      and "get_legacy_format_default env None PyNone = Inr opts"
  shows "\<exists>buf w'.
           serialize_pandas conv_from env df nthreads preserve_index w = (Inr buf, w') \<and>
           fst (deserialize_pandas conv_to buf use_threads w') =
             conv_to \<lparr>t_schema = rb_schema batch, t_batches = [batch]\<rparr>
               [(''use_threads'', use_threads)]"
  using assms by (rule round_trip)

theorem C5_pandas_round_trip_witness:
  "\<exists>buf w'.
     serialize_pandas (\<lambda>df nthreads preserve_index. Inr df) Map.empty
       \<lparr>rb_schema = [Field ''id'' ''int64'' True [], Field ''name'' ''utf8'' True []],
        rb_num_rows = 3,
        rb_columns = [Plain [Int64 1, Int64 2, Int64 3],
                      DictEncoded [Utf8 ''a'', Utf8 ''b''] [0, 1, 0]]\<rparr>
       PyNone PyNone \<lparr>sinks = [], lib_calls = []\<rparr> = (Inr buf, w') \<and>
     fst (deserialize_pandas (\<lambda>t kwargs. Inr t) buf (PyBool True) w') =
       Inr \<lparr>t_schema = [Field ''id'' ''int64'' True [], Field ''name'' ''utf8'' True []],
            t_batches =
              [\<lparr>rb_schema = [Field ''id'' ''int64'' True [], Field ''name'' ''utf8'' True []],
                rb_num_rows = 3,
                rb_columns = [Plain [Int64 1, Int64 2, Int64 3],
                              DictEncoded [Utf8 ''a'', Utf8 ''b''] [0, 1, 0]]\<rparr>]\<rparr>"
proof -
  let ?b = "\<lparr>rb_schema = [Field ''id'' ''int64'' True [], Field ''name'' ''utf8'' True []],
        rb_num_rows = 3,
        rb_columns = [Plain [Int64 1, Int64 2, Int64 3],
                      DictEncoded [Utf8 ''a'', Utf8 ''b''] [0, 1, 0]]\<rparr>"
  have a: "(\<lambda>df nthreads preserve_index. Inr df) ?b PyNone PyNone = (Inr ?b :: error + record_batch)"
    by simp
  have b: "get_legacy_format_default Map.empty None PyNone =
      Inr \<lparr>use_legacy_format = False, metadata_version = V5\<rparr>"
    by (simp add: resolve_defaults env_flag_absent)
  from C5_pandas_round_trip
    [where conv_from = "\<lambda>df nthreads preserve_index. Inr df" and df = ?b and conv_to = "\<lambda>t kwargs. Inr t"
       and use_threads = "PyBool True" and w = "\<lparr>sinks = [], lib_calls = []\<rparr>", OF a b]
  show ?thesis by simp
qed

text \<open>
  C6.  When the converter returns a batch for the frame and the writer defaults
  resolve, \<^verbatim>\<open>serialize_pandas\<close> makes exactly these calls, in this order: the
  converter with \<^verbatim>\<open>nthreads\<close> and \<^verbatim>\<open>preserve_index\<close> as given, a new
  \<^verbatim>\<open>BufferOutputStream\<close> (a sink that did not exist before: its index is the
  number of sinks so far), the stream writer's open on that sink with the batch's
  schema, one \<^verbatim>\<open>write_batch\<close> of that batch, the writer's close, and
  \<^verbatim>\<open>getvalue\<close> of the sink.  It returns what the sink has accumulated, the
  stream of that single batch, in which exactly one frame is a RecordBatch message;
  the sinks that existed before are unchanged.
\<close>

theorem C6_serialize_pandas:
  assumes "conv df nthreads preserve_index = Inr batch"
      and "get_legacy_format_default env None PyNone = Inr opts"
  shows "serialize_pandas conv env df nthreads preserve_index w =
     (Inr (single_batch_stream opts batch),
      w\<lparr>sinks := sinks w @ [single_batch_stream opts batch],
        lib_calls := lib_calls w @
          [Call_from_pandas nthreads preserve_index,
           Call_BufferOutputStream (length (sinks w)),
           Call_StreamWriter_open (length (sinks w)) (rb_schema batch) opts,
           Call_write_batch (length (sinks w)) batch,
           Call_writer_close (length (sinks w)),
           Call_getvalue (length (sinks w))]\<rparr>)
     \<and> length (filter is_record_batch_frame (single_batch_stream opts batch)) = 1
     \<and> hd (single_batch_stream opts batch) = envelope opts (SchemaMsg (rb_schema batch))
     \<and> last (single_batch_stream opts batch) = EndOfStream (framing_of opts)"
  using serialize_pandas_ok[where conv = conv and df = df, OF assms]
  by (simp add: one_record_batch_frame) (simp add: single_batch_stream_def)

theorem C6_serialize_pandas_witness:
  "serialize_pandas (\<lambda>df nthreads preserve_index. Inr df) Map.empty
     \<lparr>rb_schema = [Field ''id'' ''int64'' True [], Field ''name'' ''utf8'' True []],
      rb_num_rows = 3,
      rb_columns = [Plain [Int64 1, Int64 2, Int64 3],
                    DictEncoded [Utf8 ''a'', Utf8 ''b''] [0, 1, 0]]\<rparr>
     (PyInt 2) (PyBool False) \<lparr>sinks = [[EndOfStream Legacy]], lib_calls = []\<rparr> =
   (Inr [Message Current V5
           (SchemaMsg [Field ''id'' ''int64'' True [], Field ''name'' ''utf8'' True []]),
         Message Current V5 (DictionaryBatchMsg 1 [Utf8 ''a'', Utf8 ''b''] False),
         Message Current V5
           (RecordBatchMsg 3 [WPlain [Int64 1, Int64 2, Int64 3], WDictRef 1 [0, 1, 0]]),
         EndOfStream Current],
    \<lparr>sinks =
       [[EndOfStream Legacy],
        [Message Current V5
           (SchemaMsg [Field ''id'' ''int64'' True [], Field ''name'' ''utf8'' True []]),
         Message Current V5 (DictionaryBatchMsg 1 [Utf8 ''a'', Utf8 ''b''] False),
         Message Current V5
           (RecordBatchMsg 3 [WPlain [Int64 1, Int64 2, Int64 3], WDictRef 1 [0, 1, 0]]),
         EndOfStream Current]],
     lib_calls =
       [Call_from_pandas (PyInt 2) (PyBool False),
        Call_BufferOutputStream 1,
        Call_StreamWriter_open 1
          [Field ''id'' ''int64'' True [], Field ''name'' ''utf8'' True []]
          \<lparr>use_legacy_format = False, metadata_version = V5\<rparr>,
        Call_write_batch 1
          \<lparr>rb_schema = [Field ''id'' ''int64'' True [], Field ''name'' ''utf8'' True []],
           rb_num_rows = 3,
           rb_columns = [Plain [Int64 1, Int64 2, Int64 3],
                         DictEncoded [Utf8 ''a'', Utf8 ''b''] [0, 1, 0]]\<rparr>,
        Call_writer_close 1,
        Call_getvalue 1]\<rparr>)"
proof -
  let ?b = "\<lparr>rb_schema = [Field ''id'' ''int64'' True [], Field ''name'' ''utf8'' True []],
        rb_num_rows = 3,
        rb_columns = [Plain [Int64 1, Int64 2, Int64 3],
                      DictEncoded [Utf8 ''a'', Utf8 ''b''] [0, 1, 0]]\<rparr>"
  have a: "(\<lambda>df nthreads preserve_index. Inr df) ?b (PyInt 2) (PyBool False) =
      (Inr ?b :: error + record_batch)"
    by simp
  have b: "get_legacy_format_default Map.empty None PyNone =
      Inr \<lparr>use_legacy_format = False, metadata_version = V5\<rparr>"
    by (simp add: resolve_defaults env_flag_absent)
  from C6_serialize_pandas
    [where conv = "\<lambda>df nthreads preserve_index. Inr df" and df = ?b
       and w = "\<lparr>sinks = [[EndOfStream Legacy]], lib_calls = []\<rparr>", OF a b]
  show ?thesis
    by (simp add: single_batch_stream_def envelope_def framing_of_def dictionary_update_def)
qed

text \<open>
  C7.  For a buffer that starts with a Schema message and whose remaining frames the
  stream reader drains to the batches \<open>batches\<close>, \<^verbatim>\<open>deserialize_pandas\<close> makes
  exactly these calls, in this order: a \<^verbatim>\<open>BufferReader\<close> over the given buffer,
  the stream reader's open, \<^verbatim>\<open>read_all\<close>, the reader's \<^verbatim>\<open>__exit__\<close>, and
  only then the converter, with the table of all the batches and
  \<^verbatim>\<open>use_threads\<close> as given; it returns the converter's result.
\<close>

theorem C7_deserialize_pandas:
  assumes "buf = Message f v (SchemaMsg s) # rest"
      and "drain \<lparr>sr_phase = SchemaRead, sr_schema = s, sr_dicts = [], sr_rest = rest\<rparr> [] =
             Inr (batches, reader')"
  shows "deserialize_pandas conv buf use_threads w =
     (conv \<lparr>t_schema = s, t_batches = batches\<rparr> [(''use_threads'', use_threads)],
      w\<lparr>lib_calls := lib_calls w @
          [Call_BufferReader buf, Call_StreamReader_open, Call_read_all, Call_reader_exit,
           Call_to_pandas [(''use_threads'', use_threads)]]\<rparr>)"
  using assms by (rule deserialize_pandas_ok)

theorem C7_deserialize_pandas_witness:
  "deserialize_pandas (\<lambda>t kwargs. Inr (t, kwargs))
     [Message Legacy V4 (SchemaMsg [Field ''id'' ''int64'' True []]),
      Message Legacy V4 (RecordBatchMsg 2 [WPlain [Int64 7, Null]]),
      Message Legacy V4 (RecordBatchMsg 1 [WPlain [Int64 9]]),
      EndOfStream Legacy]
     (PyBool False) \<lparr>sinks = [], lib_calls = []\<rparr> =
   (Inr (\<lparr>t_schema = [Field ''id'' ''int64'' True []],
          t_batches =
            [\<lparr>rb_schema = [Field ''id'' ''int64'' True []], rb_num_rows = 2,
              rb_columns = [Plain [Int64 7, Null]]\<rparr>,
             \<lparr>rb_schema = [Field ''id'' ''int64'' True []], rb_num_rows = 1,
              rb_columns = [Plain [Int64 9]]\<rparr>]\<rparr>,
         [(''use_threads'', PyBool False)]),
    \<lparr>sinks = [],
     lib_calls =
       [Call_BufferReader
          [Message Legacy V4 (SchemaMsg [Field ''id'' ''int64'' True []]),
           Message Legacy V4 (RecordBatchMsg 2 [WPlain [Int64 7, Null]]),
           Message Legacy V4 (RecordBatchMsg 1 [WPlain [Int64 9]]),
           EndOfStream Legacy],
        Call_StreamReader_open, Call_read_all, Call_reader_exit,
        Call_to_pandas [(''use_threads'', PyBool False)]]\<rparr>)"
proof -
  let ?s = "[Field ''id'' ''int64'' True []]"
  let ?rest = "[Message Legacy V4 (RecordBatchMsg 2 [WPlain [Int64 7, Null]]),
      Message Legacy V4 (RecordBatchMsg 1 [WPlain [Int64 9]]),
      EndOfStream Legacy]"
  let ?b1 = "\<lparr>rb_schema = ?s, rb_num_rows = 2, rb_columns = [Plain [Int64 7, Null]]\<rparr>"
  let ?b2 = "\<lparr>rb_schema = ?s, rb_num_rows = 1, rb_columns = [Plain [Int64 9]]\<rparr>"
  have d: "drain \<lparr>sr_phase = SchemaRead, sr_schema = ?s, sr_dicts = [], sr_rest = ?rest\<rparr> [] =
      Inr ([?b1, ?b2], \<lparr>sr_phase = Exhausted, sr_schema = ?s, sr_dicts = [], sr_rest = []\<rparr>)"
    by (simp add: read_next_batch_def)
  from C7_deserialize_pandas
    [where conv = "\<lambda>t kwargs. Inr (t, kwargs)" and use_threads = "PyBool False"
       and w = "\<lparr>sinks = [], lib_calls = []\<rparr>", OF refl d]
  show ?thesis by simp
qed

text \<open>
  C8.  For every reader class (its \<^verbatim>\<open>read_all\<close> is a parameter) and every set
  of keyword options: when \<^verbatim>\<open>read_all\<close> returns a table, \<^verbatim>\<open>read_pandas\<close>
  returns what the converter makes of that table with the options as given; the
  reader is in the state in which \<^verbatim>\<open>read_all\<close> left it, and the only call after
  \<^verbatim>\<open>read_all\<close> is the one \<^verbatim>\<open>to_pandas\<close>.  When \<^verbatim>\<open>read_all\<close>
  raises, so does \<^verbatim>\<open>read_pandas\<close>, and the converter is not called.
\<close>

theorem C8_read_pandas:
  "(read_all_method self w = (Inr (t, self1), w1) \<longrightarrow>
      read_pandas read_all_method (Table_to_pandas conv) self options w =
        (case conv t options of Inl e \<Rightarrow> Inl e | Inr df \<Rightarrow> Inr (df, self1),
         w1\<lparr>lib_calls := lib_calls w1 @ [Call_to_pandas options]\<rparr>))
   \<and> (read_all_method self w = (Inl e, w1) \<longrightarrow>
      read_pandas read_all_method (Table_to_pandas conv) self options w = (Inl e, w1))"
  by (simp add: read_pandas_ok read_pandas_error record_call_def)

theorem C8_read_pandas_witness:
  "read_pandas read_all (Table_to_pandas (\<lambda>t kwargs. Inr (t, kwargs)))
     \<lparr>sr_phase = SchemaRead, sr_schema = [Field ''id'' ''int64'' True []], sr_dicts = [],
      sr_rest = [Message Current V5 (RecordBatchMsg 1 [WPlain [Int64 9]]), EndOfStream Current]\<rparr>
     [(''use_threads'', PyBool True)] \<lparr>sinks = [], lib_calls = []\<rparr> =
   (Inr ((\<lparr>t_schema = [Field ''id'' ''int64'' True []],
           t_batches = [\<lparr>rb_schema = [Field ''id'' ''int64'' True []], rb_num_rows = 1,
                         rb_columns = [Plain [Int64 9]]\<rparr>]\<rparr>,
          [(''use_threads'', PyBool True)]),
         \<lparr>sr_phase = Exhausted, sr_schema = [Field ''id'' ''int64'' True []], sr_dicts = [],
          sr_rest = []\<rparr>),
    \<lparr>sinks = [], lib_calls = [Call_read_all, Call_to_pandas [(''use_threads'', PyBool True)]]\<rparr>)
   \<and> read_pandas read_all (Table_to_pandas (\<lambda>t kwargs. Inr (t, kwargs)))
     \<lparr>sr_phase = SchemaRead, sr_schema = [Field ''id'' ''int64'' True []], sr_dicts = [],
      sr_rest = []\<rparr>
     [(''use_threads'', PyBool True)] \<lparr>sinks = [], lib_calls = []\<rparr> =
   (Inl (DecodeError ''the stream is truncated''), \<lparr>sinks = [], lib_calls = [Call_read_all]\<rparr>)"
proof -
  let ?s = "[Field ''id'' ''int64'' True []]"
  let ?r = "\<lparr>sr_phase = SchemaRead, sr_schema = ?s, sr_dicts = [],
      sr_rest = [Message Current V5 (RecordBatchMsg 1 [WPlain [Int64 9]]), EndOfStream Current]\<rparr>"
  let ?r' = "\<lparr>sr_phase = SchemaRead, sr_schema = ?s, sr_dicts = [], sr_rest = []\<rparr>"
  let ?w = "\<lparr>sinks = [], lib_calls = []\<rparr>"
  have a: "read_all ?r ?w =
      (Inr (\<lparr>t_schema = ?s,
              t_batches = [\<lparr>rb_schema = ?s, rb_num_rows = 1, rb_columns = [Plain [Int64 9]]\<rparr>]\<rparr>,
            \<lparr>sr_phase = Exhausted, sr_schema = ?s, sr_dicts = [], sr_rest = []\<rparr>),
       \<lparr>sinks = [], lib_calls = [Call_read_all]\<rparr>)"
    by (simp add: read_all_def read_next_batch_def record_call_def)
  have b: "read_all ?r' ?w =
      (Inl (DecodeError ''the stream is truncated''), \<lparr>sinks = [], lib_calls = [Call_read_all]\<rparr>)"
    by (simp add: read_all_def read_next_batch_def record_call_def)
  from
    C8_read_pandas[of read_all ?r ?w _ _ _ "\<lambda>t kwargs. Inr (t, kwargs)"
      "[(''use_threads'', PyBool True)]"]
    C8_read_pandas[of read_all ?r' ?w _ _ _ "\<lambda>t kwargs. Inr (t, kwargs)"
      "[(''use_threads'', PyBool True)]"]
    a b
  show ?thesis by simp
qed

end
